theory Spec2Isabelle
  imports Complex_Main
begin

section \<open>Strings\<close>

text \<open>
  Python strings are modelled as \<open>string\<close> (a list of 8-bit characters), with the
  ASCII reading of \<open>str.lower\<close> and \<open>str.strip\<close>. None of the keywords the program
  searches for (\<open>refund\<close>, \<open>accomm\<close>, \<open>f&b\<close>, \<open>food\<close>, \<open>bar\<close>, \<open>.csv\<close>) contains a
  letter that a character outside ASCII lowers to.
\<close>

definition lower_char :: "char \<Rightarrow> char" where
  "lower_char c =
     (case map_of (zip ''ABCDEFGHIJKLMNOPQRSTUVWXYZ'' ''abcdefghijklmnopqrstuvwxyz'') c of
        Some d \<Rightarrow> d
      | None \<Rightarrow> c)"

definition lower :: "string \<Rightarrow> string" where
  "lower s = map lower_char s"

text \<open>The characters \<open>str.strip()\<close> removes: codes 9 to 13, 28 to 31 and the space.\<close>

definition is_space :: "char \<Rightarrow> bool" where
  "is_space c = (of_char c \<in> {9, 10, 11, 12, 13, 28, 29, 30, 31, 32 :: nat})"

definition strip :: "string \<Rightarrow> string" where
  "strip s = rev (dropWhile is_space (rev (dropWhile is_space s)))"

fun startswith :: "string \<Rightarrow> string \<Rightarrow> bool" where
  "startswith s [] = True"
| "startswith [] (p # ps) = False"
| "startswith (c # cs) (p # ps) = (c = p \<and> startswith cs ps)"

text \<open>\<open>sub in s\<close>: the pattern occurs at some position of \<open>s\<close>.\<close>

fun contains :: "string \<Rightarrow> string \<Rightarrow> bool" where
  "contains [] sub = (sub = [])"
| "contains (c # cs) sub = (startswith (c # cs) sub \<or> contains cs sub)"

text \<open>
  \<open>s.replace(old, new)\<close>: one scan from the left; at each match \<open>new\<close> is emitted and
  the scan goes on behind the match, so matches do not overlap and the output is not
  scanned again. With an empty \<open>old\<close> Python puts \<open>new\<close> around every character.
\<close>

function py_replace :: "string \<Rightarrow> string \<Rightarrow> string \<Rightarrow> string" where
  "py_replace old new [] = (if old = [] then new else [])"
| "py_replace old new (c # cs) =
     (if old = [] then new @ c # py_replace old new cs
      else if startswith (c # cs) old
        then new @ py_replace old new (drop (length old) (c # cs))
        else c # py_replace old new cs)"
  by pat_completeness auto
termination
  by (relation "measure (\<lambda>(old, new, s). length s)") auto

text \<open>\<open>s.split(sep)\<close> for a one-character separator: empty segments are kept.\<close>

fun split_on :: "char \<Rightarrow> string \<Rightarrow> string list" where
  "split_on sep [] = [[]]"
| "split_on sep (c # cs) =
     (if c = sep then [] # split_on sep cs
      else (case split_on sep cs of
              seg # segs \<Rightarrow> (c # seg) # segs
            | [] \<Rightarrow> [[c]]))"

text \<open>
  \<open>Path(filename).name\<close> on a POSIX path: the last component, where empty components
  and \<open>.\<close> components do not count; the empty string when there is none.
\<close>

definition path_name :: "string \<Rightarrow> string" where
  "path_name filename =
     (case rev (filter (\<lambda>p. p \<noteq> [] \<and> p \<noteq> ''.'') (split_on CHR ''/'' filename)) of
        [] \<Rightarrow> []
      | p # _ \<Rightarrow> p)"

section \<open>Errors\<close>

datatype error = ValueError | KeyError | FileNotFoundError | ZeroDivisionError | TypeError

section \<open>cleaning.py: the file name resolver\<close>

definition site_map :: "(string \<times> string) list" where
  "site_map =
     [(''brighton'', ''Brighton''),
      (''newheaven'', ''Newhaven''),
      (''newhaven'', ''Newhaven'')]"

definition month_map :: "(string \<times> string) list" where
  "month_map =
     [(''november'', ''Nov-2025''),
      (''nov'', ''Nov-2025''),
      (''december'', ''Dec-2025''),
      (''dec'', ''Dec-2025''),
      (''january'', ''Jan-2026''),
      (''jan'', ''Jan-2026'')]"

text \<open>Lines 33 and 34: \<open>parts = Path(filename).name.replace(".csv", "").split("_")\<close>.\<close>

definition filename_parts :: "string \<Rightarrow> string list" where
  "filename_parts filename = split_on CHR ''_'' (py_replace ''.csv'' [] (path_name filename))"

definition parse_site_and_month_from_filename :: "string \<Rightarrow> error + string \<times> string" where
  "parse_site_and_month_from_filename filename =
     (let parts = filename_parts filename in
      if length parts < 2 then Inl ValueError
      else
        let raw_site = strip (parts ! 0);
            raw_month = lower (strip (parts ! 1));
            site = (case map_of site_map (lower raw_site) of
                      Some s \<Rightarrow> s
                    | None \<Rightarrow> raw_site)
        in (case map_of month_map raw_month of
              None \<Rightarrow> Inl ValueError
            | Some m \<Rightarrow> Inr (site, m)))"

section \<open>Tables\<close>

text \<open>
  A pandas cell is a tagged value: missing (\<open>NaN\<close>, \<open>NaT\<close>, \<open>NA\<close>), a number, a string or
  a timestamp. Numbers are real numbers: rounding of floating-point arithmetic is not
  modelled. A timestamp is a calendar date (year, month, day) and the time of day.
  A table has a list of column names and a list of rows; a row gives a cell for every
  name, and only the cells of the table's columns are ever read.
\<close>

datatype date = Date (year: int) (month: int) (day: int)

type_synonym timestamp = "date \<times> nat"

datatype cell = Null | Num real | Str string | Ts timestamp

type_synonym row = "string \<Rightarrow> cell"

record frame =
  columns :: "string list"
  rows :: "row list"

text \<open>
  The functions of pandas whose results depend on the library and its version are
  parameters of the model:
  \<^item> \<open>to_datetime_dayfirst\<close> is \<open>pd.to_datetime(s, errors="coerce", dayfirst=True)\<close> on a
    column and \<open>to_datetime\<close> is \<open>pd.to_datetime(s, errors="coerce")\<close>;
  \<^item> \<open>float_of_str\<close> and \<open>float_of_ts\<close> are what \<open>pd.to_numeric(s, errors="coerce")\<close>
    makes of a string and of a timestamp;
  \<^item> \<open>str_of_num\<close> and \<open>str_of_ts\<close> are what \<open>astype(str)\<close> makes of a number and of a
    timestamp;
  \<^item> \<open>apply_on_empty_raises\<close> tells whether assigning \<open>out.apply(f, axis=1)\<close> to a
    column raises \<open>ValueError\<close> when \<open>out\<close> has no rows, as it does in the versions of
    pandas where \<open>apply\<close> returns a table there; in the others the column is empty.
\<close>

record pandas =
  to_datetime_dayfirst :: "cell list \<Rightarrow> timestamp option list"
  to_datetime :: "cell list \<Rightarrow> timestamp option list"
  float_of_str :: "string \<Rightarrow> real option"
  float_of_ts :: "timestamp \<Rightarrow> real option"
  str_of_num :: "real \<Rightarrow> string"
  str_of_ts :: "timestamp \<Rightarrow> string"
  apply_on_empty_raises :: bool

definition to_numeric :: "pandas \<Rightarrow> cell \<Rightarrow> real option" where
  "to_numeric L c =
     (case c of
        Null \<Rightarrow> None
      | Num x \<Rightarrow> Some x
      | Str s \<Rightarrow> float_of_str L s
      | Ts t \<Rightarrow> float_of_ts L t)"

definition astype_str :: "pandas \<Rightarrow> cell \<Rightarrow> string" where
  "astype_str L c =
     (case c of
        Null \<Rightarrow> ''nan''
      | Num x \<Rightarrow> str_of_num L x
      | Str s \<Rightarrow> s
      | Ts t \<Rightarrow> str_of_ts L t)"

definition ts_cell :: "timestamp option \<Rightarrow> cell" where
  "ts_cell t = (case t of None \<Rightarrow> Null | Some v \<Rightarrow> Ts v)"

definition num_cell :: "real option \<Rightarrow> cell" where
  "num_cell x = (case x of None \<Rightarrow> Null | Some v \<Rightarrow> Num v)"

definition column :: "frame \<Rightarrow> string \<Rightarrow> cell list" where
  "column df c = map (\<lambda>r. r c) (rows df)"

text \<open>\<open>df.empty\<close>: one of the two axes has length 0.\<close>

definition df_empty :: "frame \<Rightarrow> bool" where
  "df_empty df = (rows df = [] \<or> columns df = [])"

text \<open>\<open>df[c] = vals\<close>, the values aligned with the rows by position.\<close>

definition set_column :: "string \<Rightarrow> cell list \<Rightarrow> frame \<Rightarrow> frame" where
  "set_column c vals df =
     \<lparr>columns = (if c \<in> set (columns df) then columns df else columns df @ [c]),
      rows = map (\<lambda>(r, v). r(c := v)) (zip (rows df) vals)\<rparr>"

text \<open>\<open>df[c] = v\<close> for one value \<open>v\<close>.\<close>

definition set_scalar :: "string \<Rightarrow> cell \<Rightarrow> frame \<Rightarrow> frame" where
  "set_scalar c v df = set_column c (replicate (length (rows df)) v) df"

text \<open>\<open>df.loc[keep]\<close>.\<close>

definition filter_rows :: "bool list \<Rightarrow> frame \<Rightarrow> frame" where
  "filter_rows keep df = df\<lparr>rows := map fst (filter snd (zip (rows df) keep))\<rparr>"

text \<open>
  \<open>a.fillna(b)\<close> for two columns on the same index: a missing entry of \<open>a\<close> takes the
  entry of \<open>b\<close> at its position, when \<open>b\<close> has one.
\<close>

fun fillna :: "'a option list \<Rightarrow> 'a option list \<Rightarrow> 'a option list" where
  "fillna [] ys = []"
| "fillna (x # xs) [] = x # xs"
| "fillna (Some v # xs) (y # ys) = Some v # fillna xs ys"
| "fillna (None # xs) (y # ys) = y # fillna xs ys"

text \<open>The distinct elements of a list, each at its first occurrence.\<close>

definition unique :: "'a list \<Rightarrow> 'a list" where
  "unique xs = rev (remdups (rev xs))"

section \<open>cleaning.py\<close>

record CleaningConfig =
  max_refund_amount :: real
  refund_keyword :: string
  high_value_threshold :: real

definition default_config :: CleaningConfig where
  "default_config =
     \<lparr>max_refund_amount = 1000, refund_keyword = ''refund'', high_value_threshold = 100\<rparr>"

text \<open>\<open>config = config or CleaningConfig()\<close>.\<close>

definition config_or_default :: "CleaningConfig option \<Rightarrow> CleaningConfig" where
  "config_or_default config_opt = (case config_opt of Some c \<Rightarrow> c | None \<Rightarrow> default_config)"

definition drop_unnamed_columns :: "frame \<Rightarrow> frame" where
  "drop_unnamed_columns df =
     df\<lparr>columns := filter (\<lambda>c. \<not> startswith c ''Unnamed:'') (columns df)\<rparr>"

definition add_file_metadata :: "frame \<Rightarrow> string \<Rightarrow> error + frame" where
  "add_file_metadata df filename =
     (case parse_site_and_month_from_filename filename of
        Inl e \<Rightarrow> Inl e
      | Inr (site, file_month) \<Rightarrow>
          Inr (set_scalar ''file_month'' (Str file_month) (set_scalar ''site'' (Str site) df)))"

text \<open>
  \<open>str.contains(keyword, case=False, na=False)\<close> is a search for the keyword in any
  letter case. pandas reads the keyword as a regular expression; for a keyword of
  letters only, such as the default, that is the search for the keyword itself.
\<close>

definition is_refund_row :: "pandas \<Rightarrow> frame \<Rightarrow> CleaningConfig \<Rightarrow> bool list" where
  "is_refund_row L df config =
     (if ''BUSINESS_FORMAT_DATE'' \<notin> set (columns df)
      then replicate (length (rows df)) False
      else map (\<lambda>c. contains (lower (astype_str L c)) (lower (refund_keyword config)))
             (column df ''BUSINESS_FORMAT_DATE''))"

definition build_transaction_date :: "pandas \<Rightarrow> frame \<Rightarrow> timestamp option list" where
  "build_transaction_date L df =
     (let dt = replicate (length (rows df)) None;
          dt = (if ''BUSINESS_DATE'' \<in> set (columns df)
                then fillna dt (to_datetime_dayfirst L (column df ''BUSINESS_DATE''))
                else dt);
          dt = (if ''BUSINESS_TIME'' \<in> set (columns df)
                then fillna dt (to_datetime_dayfirst L (column df ''BUSINESS_TIME''))
                else dt);
          dt = (if ''BUSINESS_FORMAT_DATE'' \<in> set (columns df)
                then fillna dt (to_datetime_dayfirst L (column df ''BUSINESS_FORMAT_DATE''))
                else dt)
      in dt)"

text \<open>\<open>amt.where(cond)\<close>: an entry that fails the condition becomes missing.\<close>

definition where_cond :: "('a \<Rightarrow> bool) \<Rightarrow> 'a option list \<Rightarrow> 'a option list" where
  "where_cond P xs =
     map (\<lambda>x. case x of None \<Rightarrow> None | Some v \<Rightarrow> if P v then Some v else None) xs"

definition build_refund_amount :: "pandas \<Rightarrow> frame \<Rightarrow> CleaningConfig \<Rightarrow> real option list" where
  "build_refund_amount L df config =
     (if ''ROOM'' \<notin> set (columns df) then replicate (length (rows df)) None
      else
        let amt = map (to_numeric L) (column df ''ROOM'');
            amt = map (map_option abs) amt;
            amt = where_cond (\<lambda>a. a \<le> max_refund_amount config) amt
        in amt)"

text \<open>\<open>df.loc[keep, c] = v\<close> on the column \<open>vals\<close> of \<open>c\<close>.\<close>

definition assign_where :: "bool list \<Rightarrow> cell \<Rightarrow> cell list \<Rightarrow> cell list" where
  "assign_where keep v vals = map (\<lambda>(m, old). if m then v else old) (zip keep vals)"

text \<open>Lines 151 to 160 of \<open>clean_single_file\<close>: the category column.\<close>

definition assign_category :: "pandas \<Rightarrow> frame \<Rightarrow> frame" where
  "assign_category L df =
     (if ''BUSINESS_FORMAT_DATE'' \<in> set (columns df) then
        let s = map (\<lambda>c. lower (astype_str L c)) (column df ''BUSINESS_FORMAT_DATE'');
            cat = replicate (length (rows df)) Null;
            cat = assign_where (map (\<lambda>x. contains x ''accomm'') s) (Str ''Accommodation'') cat;
            cat = assign_where
                    (map (\<lambda>x. contains x ''f&b'' \<or> contains x ''food'' \<or> contains x ''bar'') s)
                    (Str ''F&B'') cat;
            cat = map (\<lambda>c. if c = Null then Str ''Other'' else c) cat
        in set_column ''refund_category'' cat df
      else set_scalar ''refund_category'' (Str ''Other'') df)"

text \<open>
  \<open>clean_single_file\<close>. Reading the file is outside the model: the function takes the
  table \<open>raw\<close> that \<open>pd.read_csv(path)\<close> returned and \<open>name\<close>, the value of \<open>path.name\<close>.
\<close>

definition clean_single_file ::
  "pandas \<Rightarrow> frame \<Rightarrow> string \<Rightarrow> CleaningConfig option \<Rightarrow> error + frame" where
  "clean_single_file L raw name config_opt =
     (let config = config_or_default config_opt;
          df = drop_unnamed_columns raw
      in case add_file_metadata df name of
           Inl e \<Rightarrow> Inl e
         | Inr df \<Rightarrow>
             let df = filter_rows (is_refund_row L df config) df;
                 df = set_column ''transaction_date''
                        (map ts_cell (build_transaction_date L df)) df;
                 df = set_column ''refund_amount''
                        (map num_cell (build_refund_amount L df config)) df;
                 df = filter_rows (map (\<lambda>c. c \<noteq> Null) (column df ''refund_amount'')) df
             in Inr (assign_category L df))"

text \<open>
  \<open>pd.concat(frames, ignore_index=True)\<close>: the rows of all tables in order, over the
  union of their columns; a row has a missing cell in every column its table lacks.
\<close>

definition reindex_rows :: "frame \<Rightarrow> row list" where
  "reindex_rows f = map (\<lambda>r c. if c \<in> set (columns f) then r c else Null) (rows f)"

definition concat_frames :: "frame list \<Rightarrow> frame" where
  "concat_frames fs =
     \<lparr>columns = unique (concat (map columns fs)), rows = concat (map reindex_rows fs)\<rparr>"

fun clean_each :: "pandas \<Rightarrow> CleaningConfig \<Rightarrow> (string \<times> frame) list \<Rightarrow> error + frame list" where
  "clean_each L config [] = Inr []"
| "clean_each L config ((name, raw) # files) =
     (case clean_single_file L raw name (Some config) of
        Inl e \<Rightarrow> Inl e
      | Inr f \<Rightarrow>
          (case clean_each L config files of
             Inl e \<Rightarrow> Inl e
           | Inr fs \<Rightarrow> Inr (f # fs)))"

text \<open>
  \<open>clean_all_files\<close>, on the files of the directory in the sorted order of their paths,
  each given by its name and the table read from it.
\<close>

definition clean_all_files ::
  "pandas \<Rightarrow> (string \<times> frame) list \<Rightarrow> CleaningConfig option \<Rightarrow> error + frame" where
  "clean_all_files L files config_opt =
     (let config = config_or_default config_opt
      in if files = [] then Inl FileNotFoundError
         else (case clean_each L config files of
                 Inl e \<Rightarrow> Inl e
               | Inr frames \<Rightarrow> Inr (concat_frames frames)))"

section \<open>metrics.py\<close>

record SQRIWeights =
  accommodation_share_weight :: real
  accommodation_avg_weight :: real
  high_value_share_weight :: real

definition default_weights :: SQRIWeights where
  "default_weights =
     \<lparr>accommodation_share_weight = 5 / 10,
      accommodation_avg_weight = 3 / 10,
      high_value_share_weight = 2 / 10\<rparr>"

text \<open>\<open>weights = weights or SQRIWeights()\<close>.\<close>

definition weights_or_default :: "SQRIWeights option \<Rightarrow> SQRIWeights" where
  "weights_or_default weights_opt = (case weights_opt of Some w \<Rightarrow> w | None \<Rightarrow> default_weights)"

text \<open>\<open>s.dropna()\<close> on a column of optional values.\<close>

fun dropna :: "'a option list \<Rightarrow> 'a list" where
  "dropna [] = []"
| "dropna (None # xs) = dropna xs"
| "dropna (Some x # xs) = x # dropna xs"

text \<open>The entry of a column at a position of the index, missing when there is none.\<close>

definition nth_opt :: "'a option list \<Rightarrow> nat \<Rightarrow> 'a option" where
  "nth_opt xs i = (if i < length xs then xs ! i else None)"

record kpi =
  refund_count :: nat
  total_refund_value :: real
  avg_refund_value :: real

definition kpis :: "pandas \<Rightarrow> frame \<Rightarrow> error + kpi" where
  "kpis L df =
     (if df_empty df
      then Inr \<lparr>refund_count = 0, total_refund_value = 0, avg_refund_value = 0\<rparr>
      else if ''refund_amount'' \<notin> set (columns df) then Inl KeyError
      else
        let s = dropna (map (to_numeric L) (column df ''refund_amount''));
            total = (if s \<noteq> [] then sum_list s else 0);
            count = length s;
            avg = (if count \<noteq> 0 then sum_list s / real count else 0)
        in Inr \<lparr>refund_count = count, total_refund_value = total, avg_refund_value = avg\<rparr>)"

text \<open>
  The group-by aggregations read \<open>refund_amount\<close> as it is, without \<open>to_numeric\<close>: a
  number or a missing value. On a column that holds a string or a timestamp the
  aggregation raises.
\<close>

fun numeric_column :: "cell list \<Rightarrow> error + real option list" where
  "numeric_column [] = Inr []"
| "numeric_column (c # cs) =
     (case numeric_column cs of
        Inl e \<Rightarrow> Inl e
      | Inr xs \<Rightarrow>
          (case c of
             Null \<Rightarrow> Inr (None # xs)
           | Num x \<Rightarrow> Inr (Some x # xs)
           | Str s \<Rightarrow> Inl TypeError
           | Ts t \<Rightarrow> Inl TypeError))"

text \<open>
  One row of \<open>groupby([k1, k2], dropna=False)["refund_amount"].agg(count, sum, mean)\<close>:
  the count and the sum of the amounts present; the mean is missing when none is.
  The model lists the groups in the order of their first rows; pandas lists them in
  the order of their keys.
\<close>

record group_row =
  key1 :: cell
  key2 :: cell
  group_count :: nat
  group_sum :: real
  group_mean :: "real option"

definition aggregate :: "(cell \<times> cell) \<Rightarrow> ((cell \<times> cell) \<times> real option) list \<Rightarrow> group_row" where
  "aggregate k keyed =
     (let xs = dropna (map snd (filter (\<lambda>(k', a). k' = k) keyed))
      in \<lparr>key1 = fst k, key2 = snd k, group_count = length xs, group_sum = sum_list xs,
          group_mean = (if xs = [] then None else Some (sum_list xs / real (length xs)))\<rparr>)"

definition groupby_keep_na :: "string \<Rightarrow> string \<Rightarrow> frame \<Rightarrow> error + group_row list" where
  "groupby_keep_na c1 c2 df =
     (if c1 \<notin> set (columns df) \<or> c2 \<notin> set (columns df) \<or> ''refund_amount'' \<notin> set (columns df)
      then Inl KeyError
      else (case numeric_column (column df ''refund_amount'') of
              Inl e \<Rightarrow> Inl e
            | Inr amounts \<Rightarrow>
                let keys = map (\<lambda>r. (r c1, r c2)) (rows df);
                    keyed = zip keys amounts
                in Inr (map (\<lambda>k. aggregate k keyed) (unique keys))))"

definition by_site_month :: "frame \<Rightarrow> error + group_row list" where
  "by_site_month df = groupby_keep_na ''site'' ''file_month'' df"

definition category_split :: "frame \<Rightarrow> error + group_row list" where
  "category_split df = groupby_keep_na ''site'' ''refund_category'' df"

text \<open>
  \<open>sort_values(c, ascending=False)\<close>. pandas does not fix the order of rows with equal
  values; the model keeps them in their order.
\<close>

definition sort_descending :: "('a \<Rightarrow> real) \<Rightarrow> 'a list \<Rightarrow> 'a list" where
  "sort_descending f xs = sort_key (\<lambda>x. - f x) xs"









record sqri_row =
  site :: cell
  total_value :: real
  accommodation_value :: real
  accommodation_share_value :: real
  accommodation_avg :: real
  high_value_share :: real
  sqri_score :: real

text \<open>Division as Python has it: a zero divisor is a fault.\<close>

definition py_div :: "real \<Rightarrow> real \<Rightarrow> error + real" where
  "py_div a b = (if b = 0 then Inl ZeroDivisionError else Inr (a / b))"

text \<open>
  Lines 99 to 101 of \<open>sqri\<close>: the rows that have an amount and a site, each as site,
  amount and category.
\<close>

definition sqri_rows :: "pandas \<Rightarrow> frame \<Rightarrow> (cell \<times> real \<times> cell) list" where
  "sqri_rows L df =
     List.map_filter
       (\<lambda>r. case to_numeric L (r ''refund_amount'') of
              None \<Rightarrow> None
            | Some x \<Rightarrow> if r ''site'' = Null then None else Some (r ''site'', x, r ''refund_category''))
       (rows df)"

text \<open>
  Lines 103 to 129 for one site \<open>s\<close>: the four aggregates, joined on the site with
  \<open>fillna(0.0)\<close> for a site that has no accommodation row, then the share and the score.
\<close>

definition sqri_site :: "pandas \<Rightarrow> SQRIWeights \<Rightarrow> real \<Rightarrow> (cell \<times> real \<times> cell) list \<Rightarrow> cell \<Rightarrow> error + sqri_row" where
  "sqri_site L weights threshold d s =
     (let amounts = map (\<lambda>(s', x, c). x) (filter (\<lambda>(s', x, c). s' = s) d);
          acc = map (\<lambda>(s', x, c). x)
                  (filter (\<lambda>(s', x, c). s' = s \<and> lower (astype_str L c) = ''accommodation'') d);
          total = sum_list amounts;
          acc_value = (if acc = [] then 0 else sum_list acc);
          acc_avg = (if acc = [] then 0 else sum_list acc / real (length acc));
          high_value = real (length (filter (\<lambda>x. threshold \<le> x) amounts)) / real (length amounts)
      in case (if total \<noteq> 0 then py_div acc_value total else Inr 0) of
           Inl e \<Rightarrow> Inl e
         | Inr share \<Rightarrow>
             Inr \<lparr>site = s, total_value = total, accommodation_value = acc_value,
                  accommodation_share_value = share, accommodation_avg = acc_avg,
                  high_value_share = high_value,
                  sqri_score = share * accommodation_share_weight weights
                    + (acc_avg / 100) * accommodation_avg_weight weights
                    + high_value * high_value_share_weight weights\<rparr>)"

fun collect :: "(error + 'a) list \<Rightarrow> error + 'a list" where
  "collect [] = Inr []"
| "collect (x # xs) =
     (case x of
        Inl e \<Rightarrow> Inl e
      | Inr v \<Rightarrow> (case collect xs of Inl e \<Rightarrow> Inl e | Inr vs \<Rightarrow> Inr (v # vs)))"

definition sqri :: "pandas \<Rightarrow> frame \<Rightarrow> SQRIWeights option \<Rightarrow> real \<Rightarrow> error + sqri_row list" where
  "sqri L df weights_opt threshold =
     (let weights = weights_or_default weights_opt
      in if df_empty df then Inr []
         else if ''refund_amount'' \<notin> set (columns df) \<or> ''site'' \<notin> set (columns df)
                 \<or> ''refund_category'' \<notin> set (columns df)
         then Inl KeyError
         else
           let d = sqri_rows L df
           in if d = [] then (if apply_on_empty_raises L then Inl ValueError else Inr [])
              else (case collect (map (sqri_site L weights threshold d)
                                    (unique (map fst d))) of
                      Inl e \<Rightarrow> Inl e
                    | Inr out \<Rightarrow> Inr (sort_descending sqri_score out)))"

section \<open>validation.py\<close>

text \<open>
  \<open>df.duplicated(subset, keep=False)\<close> on the key tuples of the rows: a row is marked when
  its key is also the key of a row at another position. Missing values are equal to
  each other here.
\<close>

definition duplicated :: "'a list \<Rightarrow> bool list" where
  "duplicated ks =
     map (\<lambda>(i, k). k \<in> set (take i ks) \<or> k \<in> set (drop (Suc i) ks)) (enumerate 0 ks)"

definition key_cols_default :: "string list" where
  "key_cols_default = [''site'', ''transaction_date'', ''RECEIPT_NO'', ''refund_amount'']"

definition duplicate_check :: "frame \<Rightarrow> string list \<Rightarrow> (string \<times> nat) list" where
  "duplicate_check df key_cols =
     (let missing = filter (\<lambda>c. c \<notin> set (columns df)) key_cols
      in if missing \<noteq> []
         then [(''duplicate_rows'', 0), (''note_missing_key_cols'', length missing)]
         else
           let keys = map (\<lambda>r. map r key_cols) (rows df);
               dup_mask = duplicated keys;
               dup_rows = length (filter (\<lambda>b. b) dup_mask);
               distinct_keys =
                 (if dup_rows \<noteq> 0
                  then length (unique (map fst (filter snd (zip keys dup_mask))))
                  else 0)
           in [(''duplicate_rows'', dup_rows), (''distinct_duplicate_keys'', distinct_keys)])"

section \<open>A library instance for examples\<close>

text \<open>
  To run the model on concrete tables the library parameters are instantiated with
  plain readers: a date of the form dd/mm/yyyy, day first, and a decimal number with
  an optional sign. Numbers and timestamps are rendered as fixed strings.
\<close>

definition digit_val :: "char \<Rightarrow> int option" where
  "digit_val c = map_of (zip ''0123456789'' [0, 1, 2, 3, 4, 5, 6, 7, 8, 9]) c"

definition int_of_digits :: "string \<Rightarrow> int option" where
  "int_of_digits s =
     (if s = [] \<or> list_ex (\<lambda>c. digit_val c = None) s then None
      else Some (foldl (\<lambda>a c. 10 * a + (case digit_val c of Some d \<Rightarrow> d | None \<Rightarrow> 0)) 0 s))"

definition plain_date :: "string \<Rightarrow> timestamp option" where
  "plain_date s =
     (case map int_of_digits (split_on CHR ''/'' s) of
        [Some d, Some m, Some y] \<Rightarrow>
          if 1 \<le> d \<and> d \<le> 31 \<and> 1 \<le> m \<and> m \<le> 12 then Some (Date y m d, 0) else None
      | _ \<Rightarrow> None)"

definition plain_datetime :: "cell \<Rightarrow> timestamp option" where
  "plain_datetime c = (case c of Str s \<Rightarrow> plain_date s | Ts t \<Rightarrow> Some t | _ \<Rightarrow> None)"

definition plain_unsigned :: "string \<Rightarrow> real option" where
  "plain_unsigned s =
     (case split_on CHR ''.'' s of
        [i] \<Rightarrow> map_option of_int (int_of_digits i)
      | [i, f] \<Rightarrow>
          (case (int_of_digits i, int_of_digits f) of
             (Some a, Some b) \<Rightarrow> Some (of_int a + of_int b / 10 ^ length f)
           | _ \<Rightarrow> None)
      | _ \<Rightarrow> None)"

definition plain_float :: "string \<Rightarrow> real option" where
  "plain_float s =
     (case s of
        CHR ''-'' # t \<Rightarrow> map_option uminus (plain_unsigned t)
      | _ \<Rightarrow> plain_unsigned s)"

definition plain_pandas :: pandas where
  "plain_pandas =
     \<lparr>to_datetime_dayfirst = map plain_datetime,
      to_datetime = map plain_datetime,
      float_of_str = plain_float,
      float_of_ts = (\<lambda>t. None),
      str_of_num = (\<lambda>x. ''0.0''),
      str_of_ts = (\<lambda>t. ''2026-01-01''),
      apply_on_empty_raises = False\<rparr>"

text \<open>A table from its columns and, for each row, the cells in the order of the columns.\<close>

definition mk_row :: "string list \<Rightarrow> cell list \<Rightarrow> row" where
  "mk_row cols vals = (\<lambda>c. case map_of (zip cols vals) c of Some v \<Rightarrow> v | None \<Rightarrow> Null)"

definition mk_frame :: "string list \<Rightarrow> cell list list \<Rightarrow> frame" where
  "mk_frame cols vals = \<lparr>columns = cols, rows = map (mk_row cols) vals\<rparr>"

section \<open>Definitions for the statements\<close>

text \<open>The rows of the table a call returns; none when the call raises.\<close>

definition result_rows :: "error + frame \<Rightarrow> row list" where
  "result_rows x = (case x of Inl e \<Rightarrow> [] | Inr f \<Rightarrow> rows f)"

definition result_column :: "string \<Rightarrow> error + frame \<Rightarrow> cell list" where
  "result_column c x = map (\<lambda>r. r c) (result_rows x)"

text \<open>
  The amount resolution in the words of the specification: the numeric reading of the
  \<open>ROOM\<close> cell, its absolute value, and no value when that exceeds the limit.
\<close>

definition amount_spec :: "pandas \<Rightarrow> real \<Rightarrow> cell \<Rightarrow> real option" where
  "amount_spec L limit c =
     (case to_numeric L c of
        None \<Rightarrow> None
      | Some x \<Rightarrow> if limit < \<bar>x\<bar> then None else Some \<bar>x\<bar>)"

text \<open>
  The category that lines 154 to 158 leave in a row whose lowered
  \<open>BUSINESS_FORMAT_DATE\<close> string is \<open>v\<close>: the assignment of \<open>F&B\<close> is the later one.
\<close>

definition category_code :: "string \<Rightarrow> string" where
  "category_code v =
     (if contains v ''f&b'' \<or> contains v ''food'' \<or> contains v ''bar'' then ''F&B''
      else if contains v ''accomm'' then ''Accommodation''
      else ''Other'')"

text \<open>
  The resolver in the words of the specification: only a \<open>.csv\<close> at the end of the
  name is removed before the split.
\<close>

definition strip_trailing_csv :: "string \<Rightarrow> string" where
  "strip_trailing_csv s =
     (if 4 \<le> length s \<and> drop (length s - 4) s = ''.csv'' then take (length s - 4) s else s)"

definition spec_filename_parts :: "string \<Rightarrow> string list" where
  "spec_filename_parts filename = split_on CHR ''_'' (strip_trailing_csv (path_name filename))"

text \<open>
  The date resolution in the words of the specification: an ordered list of fields,
  each parsed as a whole column, and for every row the first parse result that is not
  missing.
\<close>

definition date_fields :: "string list" where
  "date_fields = [''BUSINESS_DATE'', ''BUSINESS_TIME'', ''BUSINESS_FORMAT_DATE'']"

fun coalesce :: "'a option list \<Rightarrow> 'a option" where
  "coalesce [] = None"
| "coalesce (Some v # xs) = Some v"
| "coalesce (None # xs) = coalesce xs"

definition parsed_field :: "pandas \<Rightarrow> frame \<Rightarrow> nat \<Rightarrow> string \<Rightarrow> timestamp option" where
  "parsed_field L df i c =
     (if c \<in> set (columns df) then nth_opt (to_datetime_dayfirst L (column df c)) i else None)"

text \<open>
  The rows of a raw table that normalization is to keep: the refund rows whose amount
  resolves to a value.
\<close>

definition kept_row :: "pandas \<Rightarrow> CleaningConfig \<Rightarrow> frame \<Rightarrow> row \<Rightarrow> bool" where
  "kept_row L config raw r \<longleftrightarrow>
     ''BUSINESS_FORMAT_DATE'' \<in> set (columns raw) \<and> ''ROOM'' \<in> set (columns raw) \<and>
     contains (lower (astype_str L (r ''BUSINESS_FORMAT_DATE''))) (lower (refund_keyword config)) \<and>
     amount_spec L (max_refund_amount config) (r ''ROOM'') \<noteq> None"

text \<open>The table without the rows whose site is missing.\<close>

definition non_null_sites :: "frame \<Rightarrow> frame" where
  "non_null_sites df = df\<lparr>rows := filter (\<lambda>r. r ''site'' \<noteq> Null) (rows df)\<rparr>"

text \<open>The key tuple of every row: its cells in the key columns.\<close>

definition key_tuples :: "frame \<Rightarrow> string list \<Rightarrow> cell list list" where
  "key_tuples df key_cols = map (\<lambda>r. map r key_cols) (rows df)"





section \<open>Example tables\<close>

text \<open>
  Refund rows with the amounts 1000, 1000.01 and -1000, and one without an amount.
\<close>

definition ex_amounts :: frame where
  "ex_amounts =
     mk_frame [''BUSINESS_FORMAT_DATE'', ''ROOM'']
       [[Str ''Refund'', Num 1000],
        [Str ''Refund'', Num (100001 / 100)],
        [Str ''REFUND bar'', Num (- 1000)],
        [Str ''Refund'', Null]]"

text \<open>
  A refund row for accommodation, and one whose text contains \<open>accomm\<close> and \<open>bar\<close>; the
  second one alone in a table of its own.
\<close>

definition ex_categories :: frame where
  "ex_categories =
     mk_frame [''BUSINESS_FORMAT_DATE'', ''ROOM'']
       [[Str ''Refund Accommodation'', Num 20],
        [Str ''Refund Accomm Bar'', Num 30]]"

definition ex_overlap :: frame where
  "ex_overlap =
     mk_frame [''BUSINESS_FORMAT_DATE'', ''ROOM''] [[Str ''Refund Accomm Bar'', Num 30]]"

text \<open>
  A table whose first row is the example of the specification: no \<open>BUSINESS_DATE\<close>, a
  date in \<open>BUSINESS_TIME\<close> and another one inside the text of \<open>BUSINESS_FORMAT_DATE\<close>.
\<close>

definition ex_dates :: frame where
  "ex_dates =
     mk_frame [''BUSINESS_DATE'', ''BUSINESS_TIME'', ''BUSINESS_FORMAT_DATE'']
       [[Null, Str ''15/01/2026'', Str ''16/01/2026 Refund''],
        [Str ''03/04/2025'', Str ''15/01/2026'', Str ''Refund''],
        [Null, Null, Str ''17/01/2026'']]"

text \<open>
  A consolidated table with two sites and one row without a site. The amounts of
  Brighton cancel, so its total is 0 while its accommodation value is 5.
\<close>

definition ex_sites :: frame where
  "ex_sites =
     mk_frame [''site'', ''file_month'', ''refund_category'', ''refund_amount'']
       [[Str ''Brighton'', Str ''Nov-2025'', Str ''Accommodation'', Num 5],
        [Str ''Newhaven'', Str ''Nov-2025'', Str ''Accommodation'', Num 200],
        [Null, Str ''Nov-2025'', Str ''Other'', Num 50],
        [Str ''Brighton'', Str ''Nov-2025'', Str ''Other'', Num (- 5)],
        [Str ''Newhaven'', Str ''Dec-2025'', Str ''F&B'', Num 100]]"

text \<open>
  The results of \<open>sqri\<close>, \<open>by_site_month\<close> and \<open>category_split\<close> on that table.
\<close>

definition ex_sqri_out :: "sqri_row list" where
  "ex_sqri_out =
     [\<lparr>site = Str ''Newhaven'', total_value = 300, accommodation_value = 200,
        accommodation_share_value = 2 / 3, accommodation_avg = 200,
        high_value_share = 1, sqri_score = 17 / 15\<rparr>,
      \<lparr>site = Str ''Brighton'', total_value = 0, accommodation_value = 5,
        accommodation_share_value = 0, accommodation_avg = 5,
        high_value_share = 0, sqri_score = 3 / 200\<rparr>]"

definition ex_by_site_month :: "group_row list" where
  "ex_by_site_month =
     [\<lparr>key1 = Str ''Brighton'', key2 = Str ''Nov-2025'', group_count = 2, group_sum = 0,
        group_mean = Some 0\<rparr>,
      \<lparr>key1 = Str ''Newhaven'', key2 = Str ''Nov-2025'', group_count = 1, group_sum = 200,
        group_mean = Some 200\<rparr>,
      \<lparr>key1 = Null, key2 = Str ''Nov-2025'', group_count = 1, group_sum = 50,
        group_mean = Some 50\<rparr>,
      \<lparr>key1 = Str ''Newhaven'', key2 = Str ''Dec-2025'', group_count = 1, group_sum = 100,
        group_mean = Some 100\<rparr>]"

definition ex_category_split :: "group_row list" where
  "ex_category_split =
     [\<lparr>key1 = Str ''Brighton'', key2 = Str ''Accommodation'', group_count = 1, group_sum = 5,
        group_mean = Some 5\<rparr>,
      \<lparr>key1 = Str ''Newhaven'', key2 = Str ''Accommodation'', group_count = 1, group_sum = 200,
        group_mean = Some 200\<rparr>,
      \<lparr>key1 = Null, key2 = Str ''Other'', group_count = 1, group_sum = 50,
        group_mean = Some 50\<rparr>,
      \<lparr>key1 = Str ''Brighton'', key2 = Str ''Other'', group_count = 1, group_sum = - 5,
        group_mean = Some (- 5)\<rparr>,
      \<lparr>key1 = Str ''Newhaven'', key2 = Str ''F&B'', group_count = 1, group_sum = 100,
        group_mean = Some 100\<rparr>]"

text \<open>
  Two rows with the same key and, between them, a row that shares the site, the date
  and the amount but not the receipt number.
\<close>

definition ex_dups :: frame where
  "ex_dups =
     mk_frame [''site'', ''transaction_date'', ''RECEIPT_NO'', ''refund_amount'']
       [[Str ''Brighton'', Ts (Date 2026 1 15, 0), Num 7, Num 10],
        [Str ''Brighton'', Ts (Date 2026 1 15, 0), Num 8, Num 10],
        [Str ''Brighton'', Ts (Date 2026 1 15, 0), Num 7, Num 10]]"

text \<open>
  A table without the columns \<open>transaction_date\<close> and \<open>RECEIPT_NO\<close>.
\<close>

definition ex_missing_keys :: frame where
  "ex_missing_keys =
     mk_frame [''site'', ''refund_amount''] [[Str ''Brighton'', Num 10], [Str ''Brighton'', Num 10]]"



section \<open>Lemmas about tables and the cleaning steps\<close>

lemma rows_filter_rows_map: "rows (filter_rows (map P (rows df)) df) = filter P (rows df)"
proof -
  have "map fst (filter snd (zip xs (map P xs))) = filter P xs" for xs :: "row list"
    by (induction xs) auto
  then show ?thesis by (simp add: filter_rows_def)
qed

lemma columns_filter_rows: "columns (filter_rows keep df) = columns df"
  by (simp add: filter_rows_def)

lemma rows_set_column_map:
  "rows (set_column c (map f (rows df)) df) = map (\<lambda>r. r(c := f r)) (rows df)"
proof -
  have "map (\<lambda>(r, v). r(c := v)) (zip xs (map f xs)) = map (\<lambda>r. r(c := f r)) xs" for xs :: "row list"
    by (induction xs) auto
  then show ?thesis by (simp add: set_column_def)
qed

lemma rows_set_scalar: "rows (set_scalar c v df) = map (\<lambda>r. r(c := v)) (rows df)"
proof -
  have "map (\<lambda>(r, w). r(c := w)) (zip xs (replicate (length xs) v)) = map (\<lambda>r. r(c := v)) xs"
    for xs :: "row list"
    by (induction xs) auto
  then show ?thesis by (simp add: set_scalar_def set_column_def)
qed

lemma columns_set_column: "set (columns (set_column c vals df)) = insert c (set (columns df))"
  by (auto simp: set_column_def)

lemma columns_set_scalar: "set (columns (set_scalar c v df)) = insert c (set (columns df))"
  by (simp add: set_scalar_def columns_set_column)

lemma in_rows_set_column:
  "r \<in> set (rows (set_column c vals df)) \<Longrightarrow> \<exists>r0 \<in> set (rows df). \<exists>v. r = r0(c := v)"
  by (auto simp: set_column_def dest: set_zip_leftD)

lemma build_refund_amount_map:
  "build_refund_amount L df config =
     map (\<lambda>r. if ''ROOM'' \<in> set (columns df)
               then amount_spec L (max_refund_amount config) (r ''ROOM'') else None) (rows df)"
  by (auto simp: build_refund_amount_def column_def where_cond_def amount_spec_def Let_def
        map_replicate_const split: option.splits)

lemma assign_where_map:
  "assign_where (map P xs) v (map g xs) = map (\<lambda>x. if P x then v else g x) xs"
  by (induction xs) (auto simp: assign_where_def)

lemma rows_assign_category:
  "rows (assign_category L df) =
     map (\<lambda>r. r(''refund_category'' :=
            Str (if ''BUSINESS_FORMAT_DATE'' \<in> set (columns df)
                 then category_code (lower (astype_str L (r ''BUSINESS_FORMAT_DATE'')))
                 else ''Other''))) (rows df)"
proof (cases "''BUSINESS_FORMAT_DATE'' \<in> set (columns df)")
  case False
  then show ?thesis by (simp add: assign_category_def rows_set_scalar)
next
  case True
  let ?s = "\<lambda>r. lower (astype_str L (r ''BUSINESS_FORMAT_DATE''))"
  have cat: "map (\<lambda>c. if c = Null then Str ''Other'' else c)
      (assign_where (map (\<lambda>x. contains x ''f&b'' \<or> contains x ''food'' \<or> contains x ''bar'') (map ?s xs))
         (Str ''F&B'')
         (assign_where (map (\<lambda>x. contains x ''accomm'') (map ?s xs)) (Str ''Accommodation'')
            (replicate (length xs) Null)))
     = map (\<lambda>r. Str (category_code (?s r))) xs" for xs :: "row list"
    by (induction xs) (auto simp: assign_where_def category_code_def)
  have s: "map (\<lambda>c. lower (astype_str L c)) (column df ''BUSINESS_FORMAT_DATE'') = map ?s (rows df)"
    by (simp add: column_def)
  show ?thesis
    unfolding assign_category_def Let_def s cat
    using True by (simp only: if_True rows_set_column_map)
qed

lemma columns_assign_category:
  "set (columns (assign_category L df)) = insert ''refund_category'' (set (columns df))"
  by (simp add: assign_category_def Let_def columns_set_column columns_set_scalar)


lemma rows_drop_unnamed: "rows (drop_unnamed_columns df) = rows df"
  by (simp add: drop_unnamed_columns_def)

lemma columns_drop_unnamed:
  "set (columns (drop_unnamed_columns df)) = {c \<in> set (columns df). \<not> startswith c ''Unnamed:''}"
  by (simp add: drop_unnamed_columns_def)

lemma is_refund_row_map:
  "is_refund_row L df config =
     map (\<lambda>r. ''BUSINESS_FORMAT_DATE'' \<in> set (columns df) \<and>
               contains (lower (astype_str L (r ''BUSINESS_FORMAT_DATE'')))
                 (lower (refund_keyword config))) (rows df)"
  by (simp add: is_refund_row_def column_def map_replicate_const)

lemma clean_single_file_rows:
  assumes r: "r \<in> set (result_rows (clean_single_file L raw name cfg))"
  shows "\<exists>r0 \<in> set (rows raw). \<exists>a.
           ''BUSINESS_FORMAT_DATE'' \<in> set (columns raw) \<and> ''ROOM'' \<in> set (columns raw) \<and>
           contains (lower (astype_str L (r0 ''BUSINESS_FORMAT_DATE'')))
             (lower (refund_keyword (config_or_default cfg))) \<and>
           amount_spec L (max_refund_amount (config_or_default cfg)) (r0 ''ROOM'') = Some a \<and>
           r ''refund_amount'' = Num a \<and>
           r ''ROOM'' = r0 ''ROOM'' \<and>
           r ''BUSINESS_FORMAT_DATE'' = r0 ''BUSINESS_FORMAT_DATE'' \<and>
           r ''refund_category'' =
             Str (category_code (lower (astype_str L (r0 ''BUSINESS_FORMAT_DATE''))))"
proof -
  let ?config = "config_or_default cfg"
  let ?df0 = "drop_unnamed_columns raw"
  obtain s m where pm: "parse_site_and_month_from_filename name = Inr (s, m)"
    using r
    by (cases "parse_site_and_month_from_filename name")
       (auto simp: clean_single_file_def add_file_metadata_def result_rows_def Let_def)
  define df1 where "df1 = set_scalar ''file_month'' (Str m) (set_scalar ''site'' (Str s) ?df0)"
  define df2 where "df2 = filter_rows (is_refund_row L df1 ?config) df1"
  define df3 where
    "df3 = set_column ''transaction_date'' (map ts_cell (build_transaction_date L df2)) df2"
  define df4 where
    "df4 = set_column ''refund_amount'' (map num_cell (build_refund_amount L df3 ?config)) df3"
  define df5 where
    "df5 = filter_rows (map (\<lambda>c. c \<noteq> Null) (column df4 ''refund_amount'')) df4"
  have out: "clean_single_file L raw name cfg = Inr (assign_category L df5)"
    by (simp add: clean_single_file_def add_file_metadata_def pm Let_def
          df1_def df2_def df3_def df4_def df5_def)
  have c1: "set (columns df1) = {''file_month'', ''site''} \<union> set (columns ?df0)"
    by (auto simp: df1_def columns_set_scalar)
  have c2: "set (columns df2) = set (columns df1)"
    by (simp add: df2_def columns_filter_rows)
  have c3: "set (columns df3) = insert ''transaction_date'' (set (columns df2))"
    by (simp add: df3_def columns_set_column)
  have c4: "set (columns df4) = insert ''refund_amount'' (set (columns df3))"
    by (simp add: df4_def columns_set_column)
  have c5: "set (columns df5) = set (columns df4)"
    by (simp add: df5_def columns_filter_rows)
  have bfd: "''BUSINESS_FORMAT_DATE'' \<in> set (columns df5) \<longleftrightarrow> ''BUSINESS_FORMAT_DATE'' \<in> set (columns raw)"
    by (simp add: c5 c4 c3 c2 c1 columns_drop_unnamed)
  have bfd1: "''BUSINESS_FORMAT_DATE'' \<in> set (columns df1) \<longleftrightarrow> ''BUSINESS_FORMAT_DATE'' \<in> set (columns raw)"
    by (simp add: c1 columns_drop_unnamed)
  have room: "''ROOM'' \<in> set (columns df3) \<longleftrightarrow> ''ROOM'' \<in> set (columns raw)"
    by (simp add: c3 c2 c1 columns_drop_unnamed)
  have r1: "rows df1 = map (\<lambda>r. r(''site'' := Str s, ''file_month'' := Str m)) (rows raw)"
    by (simp add: df1_def rows_set_scalar rows_drop_unnamed)
  have r2: "rows df2 = filter (\<lambda>r. ''BUSINESS_FORMAT_DATE'' \<in> set (columns df1) \<and>
               contains (lower (astype_str L (r ''BUSINESS_FORMAT_DATE'')))
                 (lower (refund_keyword ?config))) (rows df1)"
    unfolding df2_def is_refund_row_map by (rule rows_filter_rows_map)
  have r4: "rows df4 = map (\<lambda>r. r(''refund_amount'' := num_cell
              (if ''ROOM'' \<in> set (columns df3)
               then amount_spec L (max_refund_amount ?config) (r ''ROOM'') else None))) (rows df3)"
    unfolding df4_def build_refund_amount_map map_map o_def by (rule rows_set_column_map)
  have r5: "rows df5 = filter (\<lambda>r. r ''refund_amount'' \<noteq> Null) (rows df4)"
    unfolding df5_def column_def map_map o_def by (rule rows_filter_rows_map)
  from r out have "r \<in> set (rows (assign_category L df5))"
    by (simp add: result_rows_def)
  then obtain q5 where q5: "q5 \<in> set (rows df5)"
    and rq5: "r = q5(''refund_category'' := Str (if ''BUSINESS_FORMAT_DATE'' \<in> set (columns df5)
                 then category_code (lower (astype_str L (q5 ''BUSINESS_FORMAT_DATE'')))
                 else ''Other''))"
    by (auto simp: rows_assign_category)
  from q5 have q5': "q5 \<in> set (rows df4)" and nn: "q5 ''refund_amount'' \<noteq> Null"
    by (simp_all add: r5)
  from q5' obtain q3 where q3: "q3 \<in> set (rows df3)"
    and q5q3: "q5 = q3(''refund_amount'' := num_cell
              (if ''ROOM'' \<in> set (columns df3)
               then amount_spec L (max_refund_amount ?config) (q3 ''ROOM'') else None))"
    by (auto simp: r4)
  from q3 obtain q2 v where q2: "q2 \<in> set (rows df2)" and q3q2: "q3 = q2(''transaction_date'' := v)"
    unfolding df3_def by (blast dest: in_rows_set_column)
  from q2 have q2': "q2 \<in> set (rows df1)" and bfdraw: "''BUSINESS_FORMAT_DATE'' \<in> set (columns raw)"
    and kw: "contains (lower (astype_str L (q2 ''BUSINESS_FORMAT_DATE''))) (lower (refund_keyword ?config))"
    by (simp_all add: r2 bfd1)
  from q2' obtain r0 where r0: "r0 \<in> set (rows raw)"
    and q2r0: "q2 = r0(''site'' := Str s, ''file_month'' := Str m)"
    by (auto simp: r1)
  have amt: "q5 ''refund_amount'' = num_cell
              (if ''ROOM'' \<in> set (columns raw)
               then amount_spec L (max_refund_amount ?config) (r0 ''ROOM'') else None)"
    by (simp add: q5q3 q3q2 q2r0 room)
  with nn have roomraw: "''ROOM'' \<in> set (columns raw)"
    by (auto simp: num_cell_def split: if_splits)
  from amt nn roomraw obtain a where
    a: "amount_spec L (max_refund_amount ?config) (r0 ''ROOM'') = Some a"
    and qa: "q5 ''refund_amount'' = Num a"
    by (auto simp: num_cell_def split: option.splits)
  have "r ''refund_amount'' = Num a" using qa by (simp add: rq5)
  moreover have "r ''ROOM'' = r0 ''ROOM''" by (simp add: rq5 q5q3 q3q2 q2r0)
  moreover have same: "q5 ''BUSINESS_FORMAT_DATE'' = r0 ''BUSINESS_FORMAT_DATE''"
    by (simp add: q5q3 q3q2 q2r0)
  moreover have "r ''BUSINESS_FORMAT_DATE'' = r0 ''BUSINESS_FORMAT_DATE''"
    using same by (simp add: rq5)
  moreover have "r ''refund_category'' =
             Str (category_code (lower (astype_str L (r0 ''BUSINESS_FORMAT_DATE''))))"
    using bfdraw by (simp add: rq5 bfd same)
  moreover have "contains (lower (astype_str L (r0 ''BUSINESS_FORMAT_DATE'')))
             (lower (refund_keyword ?config))"
    using kw by (simp add: q2r0)
  ultimately show ?thesis using r0 a bfdraw roomraw by blast
qed

lemma amount_spec_nonneg: "amount_spec L limit c = Some a \<Longrightarrow> 0 \<le> a"
  by (auto simp: amount_spec_def split: option.splits if_splits)

lemma clean_single_file_amount:
  "r \<in> set (result_rows (clean_single_file L raw name cfg)) \<Longrightarrow>
     \<exists>a. r ''refund_amount'' = Num a \<and> 0 \<le> a"
  by (blast dest: clean_single_file_rows amount_spec_nonneg)

lemma clean_single_file_columns:
  "clean_single_file L raw name cfg = Inr out \<Longrightarrow> ''refund_amount'' \<in> set (columns out)"
  by (auto simp: clean_single_file_def add_file_metadata_def Let_def columns_assign_category
        columns_filter_rows columns_set_column split: sum.splits prod.splits)

lemma clean_each_frames:
  "clean_each L config files = Inr fs \<Longrightarrow> f \<in> set fs \<Longrightarrow>
     \<exists>name raw. clean_single_file L raw name (Some config) = Inr f"
proof (induction files arbitrary: fs)
  case Nil
  then show ?case by simp
next
  case (Cons p files)
  obtain name raw where p: "p = (name, raw)" by (cases p)
  from Cons.prems(1) obtain g gs where
    g: "clean_single_file L raw name (Some config) = Inr g"
    and gs: "clean_each L config files = Inr gs" and fs: "fs = g # gs"
    by (auto simp: p split: sum.splits)
  show ?case
  proof (cases "f = g")
    case True
    with g show ?thesis by blast
  next
    case False
    with Cons.prems(2) fs have "f \<in> set gs" by simp
    with Cons.IH [OF gs] show ?thesis .
  qed
qed

lemma clean_all_files_amount:
  assumes "r \<in> set (result_rows (clean_all_files L files cfg))"
  shows "\<exists>a. r ''refund_amount'' = Num a \<and> 0 \<le> a"
proof -
  from assms obtain fs where fs: "clean_each L (config_or_default cfg) files = Inr fs"
    and r: "r \<in> set (rows (concat_frames fs))"
    by (auto simp: clean_all_files_def result_rows_def Let_def split: if_splits sum.splits)
  from r obtain f r0 where f: "f \<in> set fs" and r0: "r0 \<in> set (rows f)"
    and rr: "r = (\<lambda>c. if c \<in> set (columns f) then r0 c else Null)"
    by (auto simp: concat_frames_def reindex_rows_def)
  from clean_each_frames [OF fs f] obtain name raw where
    c: "clean_single_file L raw name (Some (config_or_default cfg)) = Inr f" by blast
  from c r0 have "r0 \<in> set (result_rows (clean_single_file L raw name (Some (config_or_default cfg))))"
    by (simp add: result_rows_def)
  then obtain a where "r0 ''refund_amount'' = Num a" "0 \<le> a"
    by (blast dest: clean_single_file_amount)
  moreover have "r ''refund_amount'' = r0 ''refund_amount''"
    using clean_single_file_columns [OF c] by (simp add: rr)
  ultimately show ?thesis by simp
qed

lemma column_nth:
  "result_column c x = vs \<Longrightarrow> i < length vs \<Longrightarrow>
     result_rows x ! i \<in> set (result_rows x) \<and> (result_rows x ! i) c = vs ! i"
  by (auto simp: result_column_def)

section \<open>Properties of the transaction date\<close>

lemma length_fillna: "length (fillna xs ys) = length xs"
  by (induction xs ys rule: fillna.induct) auto

lemma nth_opt_Cons:
  "nth_opt (y # ys) 0 = y" "nth_opt (y # ys) (Suc n) = nth_opt ys n"
  by (simp_all add: nth_opt_def)

lemma coalesce_Cons:
  "coalesce (x # xs) = (case x of Some v \<Rightarrow> Some v | None \<Rightarrow> coalesce xs)"
  by (cases x) auto

lemma nth_fillna:
  "i < length xs \<Longrightarrow>
     fillna xs ys ! i = (case xs ! i of Some v \<Rightarrow> Some v | None \<Rightarrow> nth_opt ys i)"
proof (induction xs ys arbitrary: i rule: fillna.induct)
  case (1 ys)
  then show ?case by simp
next
  case (2 x xs)
  then show ?case by (simp add: nth_opt_def split: option.splits)
next
  case (3 v xs y ys)
  then show ?case by (cases i) (auto simp: nth_opt_Cons split: option.splits)
next
  case (4 xs y ys)
  then show ?case by (cases i) (auto simp: nth_opt_Cons split: option.splits)
qed

lemma length_build_transaction_date: "length (build_transaction_date L df) = length (rows df)"
  by (simp add: build_transaction_date_def Let_def length_fillna)

text \<open>
  C4. The transaction date of a row is the first value that is not missing among the
  parses of \<open>BUSINESS_DATE\<close>, \<open>BUSINESS_TIME\<close> and \<open>BUSINESS_FORMAT_DATE\<close> at that row, in
  this order, where a field that is not a column of the table counts as missing: every
  present field is parsed for the whole column, and a later field fills only the rows
  that are still missing. The result has one entry per row. The parser itself is the
  library's; with a day-first reading of \<open>15/01/2026\<close> in its place, the example row
  of the specification resolves to 15 January 2026.
\<close>

theorem transaction_date_coalesce:
  "i < length (rows df) \<Longrightarrow>
     length (build_transaction_date L df) = length (rows df) \<and>
     build_transaction_date L df ! i = coalesce (map (parsed_field L df i) date_fields)"
  by (simp add: build_transaction_date_def Let_def length_fillna nth_fillna parsed_field_def
        date_fields_def coalesce_Cons del: coalesce.simps(2,3) split: option.splits)

theorem transaction_date_coalesce_witness:
  "0 < length (rows ex_dates) \<and>
   parsed_field plain_pandas ex_dates 0 ''BUSINESS_DATE'' = None \<and>
   parsed_field plain_pandas ex_dates 0 ''BUSINESS_TIME'' = Some (Date 2026 1 15, 0) \<and>
   build_transaction_date plain_pandas ex_dates ! 0 = Some (Date 2026 1 15, 0)"
proof -
  have l: "0 < length (rows ex_dates)"
    by (simp add: ex_dates_def mk_frame_def)
  have d: "parsed_field plain_pandas ex_dates 0 ''BUSINESS_DATE'' = None"
    by code_simp
  have t: "parsed_field plain_pandas ex_dates 0 ''BUSINESS_TIME'' = Some (Date 2026 1 15, 0)"
    by code_simp
  from transaction_date_coalesce [OF l, of plain_pandas] d t l
  show ?thesis by (simp add: date_fields_def)
qed

section \<open>The rows that normalization keeps\<close>

lemma map_filter_cong2:
  "(\<And>x. x \<in> set xs \<Longrightarrow> P x = Q x) \<Longrightarrow> (\<And>x. x \<in> set xs \<Longrightarrow> Q x \<Longrightarrow> f x = g x) \<Longrightarrow>
     map f (filter P xs) = map g (filter Q xs)"
  by (induction xs) auto

lemma map_filter_zip_update:
  assumes "length xs = length ts"
    and q: "\<And>r t. Q (r(c := t)) = Q r" and p: "\<And>r t. p (r(c := t)) = p r"
  shows "map p (filter Q (map (\<lambda>(r, t). r(c := t)) (zip xs ts))) = map p (filter Q xs)"
  using assms(1)
proof (induction xs ts rule: list_induct2)
  case Nil
  then show ?case by simp
next
  case (Cons x xs t ts)
  have "map p (filter Q (map (\<lambda>(r, t). r(c := t)) (zip (x # xs) (t # ts)))) =
      map p (filter Q (x(c := t) # map (\<lambda>(r, t). r(c := t)) (zip xs ts)))"
    by simp
  also have "\<dots> = (if Q x then [p x] else []) @
      map p (filter Q (map (\<lambda>(r, t). r(c := t)) (zip xs ts)))"
    by (simp only: filter.simps q p list.map if_distrib [of "map p"] append_Cons append_Nil
          split: if_splits) (simp add: p)
  also have "\<dots> = (if Q x then [p x] else []) @ map p (filter Q xs)"
    by (simp only: Cons.IH)
  also have "\<dots> = map p (filter Q (x # xs))"
    by simp
  finally show ?case .
qed

lemma clean_single_file_projection:
  fixes p :: "row \<Rightarrow> 'a"
  assumes pm: "parse_site_and_month_from_filename name = Inr (s, m)"
    and p1: "\<And>r v. p (r(''site'' := v)) = p r"
    and p2: "\<And>r v. p (r(''file_month'' := v)) = p r"
    and p3: "\<And>r v. p (r(''transaction_date'' := v)) = p r"
    and p4: "\<And>r v. p (r(''refund_category'' := v)) = p r"
  shows "map p (result_rows (clean_single_file L raw name cfg)) =
     map (\<lambda>r. p (r(''refund_amount'' :=
                 num_cell (amount_spec L (max_refund_amount (config_or_default cfg)) (r ''ROOM'')))))
       (filter (kept_row L (config_or_default cfg) raw) (rows raw))"
proof -
  let ?config = "config_or_default cfg"
  let ?df0 = "drop_unnamed_columns raw"
  define df1 where "df1 = set_scalar ''file_month'' (Str m) (set_scalar ''site'' (Str s) ?df0)"
  define df2 where "df2 = filter_rows (is_refund_row L df1 ?config) df1"
  define df3 where
    "df3 = set_column ''transaction_date'' (map ts_cell (build_transaction_date L df2)) df2"
  define df4 where
    "df4 = set_column ''refund_amount'' (map num_cell (build_refund_amount L df3 ?config)) df3"
  define df5 where
    "df5 = filter_rows (map (\<lambda>c. c \<noteq> Null) (column df4 ''refund_amount'')) df4"
  have out: "clean_single_file L raw name cfg = Inr (assign_category L df5)"
    by (simp add: clean_single_file_def add_file_metadata_def pm Let_def
          df1_def df2_def df3_def df4_def df5_def)
  have c1: "set (columns df1) = {''file_month'', ''site''} \<union> set (columns ?df0)"
    by (auto simp: df1_def columns_set_scalar)
  have c3: "set (columns df3) = insert ''transaction_date'' (set (columns df1))"
    by (simp add: df3_def df2_def columns_set_column columns_filter_rows)
  have bfd1: "''BUSINESS_FORMAT_DATE'' \<in> set (columns df1) \<longleftrightarrow> ''BUSINESS_FORMAT_DATE'' \<in> set (columns raw)"
    by (simp add: c1 columns_drop_unnamed)
  have room: "''ROOM'' \<in> set (columns df3) \<longleftrightarrow> ''ROOM'' \<in> set (columns raw)"
    by (simp add: c3 c1 columns_drop_unnamed)
  define M :: "row \<Rightarrow> row" where "M = (\<lambda>r. r(''site'' := Str s, ''file_month'' := Str m))"
  define R :: "row \<Rightarrow> bool" where "R = (\<lambda>r. ''BUSINESS_FORMAT_DATE'' \<in> set (columns raw) \<and>
               contains (lower (astype_str L (r ''BUSINESS_FORMAT_DATE'')))
                 (lower (refund_keyword ?config)))"
  define amt :: "row \<Rightarrow> real option" where "amt = (\<lambda>r. if ''ROOM'' \<in> set (columns raw)
               then amount_spec L (max_refund_amount ?config) (r ''ROOM'') else None)"
  define A :: "row \<Rightarrow> row" where "A = (\<lambda>r. r(''refund_amount'' := num_cell (amt r)))"
  have r1: "rows df1 = map M (rows raw)"
    by (simp add: df1_def rows_set_scalar rows_drop_unnamed M_def)
  have r2: "rows df2 = filter R (rows df1)"
    unfolding df2_def is_refund_row_map bfd1 R_def by (rule rows_filter_rows_map)
  have r3: "rows df3 = map (\<lambda>(r, t). r(''transaction_date'' := t))
      (zip (rows df2) (map ts_cell (build_transaction_date L df2)))"
    by (simp add: df3_def set_column_def)
  have r4: "rows df4 = map A (rows df3)"
    unfolding df4_def build_refund_amount_map map_map o_def room A_def amt_def
    by (rule rows_set_column_map)
  have r5: "rows df5 = filter (\<lambda>r. r ''refund_amount'' \<noteq> Null) (rows df4)"
    unfolding df5_def column_def map_map o_def by (rule rows_filter_rows_map)
  have nn: "(A r) ''refund_amount'' \<noteq> Null \<longleftrightarrow> amt r \<noteq> None" for r
    by (cases "amt r") (simp_all add: A_def num_cell_def)
  have amt_td: "amt (r(''transaction_date'' := t)) = amt r" for r t
    by (simp add: amt_def)
  have A_td: "A (r(''transaction_date'' := t)) = (A r)(''transaction_date'' := t)" for r t
    by (simp add: A_def amt_td fun_upd_twist)
  have amt_M: "amt (M r) = amt r" for r
    by (simp add: amt_def M_def)
  have A_M: "p (A (M r)) = p (r(''refund_amount'' := num_cell (amt r)))" for r
  proof -
    have "A (M r) = (r(''refund_amount'' := num_cell (amt r)))
        (''site'' := Str s, ''file_month'' := Str m)"
      by (simp add: A_def amt_M) (simp add: M_def fun_upd_twist)
    then show ?thesis by (simp only: p1 p2)
  qed
  have R_M: "R (M r) = R r" for r
    by (simp add: R_def M_def)
  have "map p (result_rows (clean_single_file L raw name cfg)) = map p (rows df5)"
    by (simp add: out result_rows_def rows_assign_category o_def p4)
  also have "\<dots> = map (\<lambda>r. p (A r)) (filter (\<lambda>r. (A r) ''refund_amount'' \<noteq> Null) (rows df3))"
    by (simp only: r5 r4 filter_map map_map o_def)
  also have "\<dots> = map (\<lambda>r. p (A r)) (filter (\<lambda>r. amt r \<noteq> None) (rows df3))"
    by (simp only: nn)
  also have "\<dots> = map (\<lambda>r. p (A r)) (filter (\<lambda>r. amt r \<noteq> None) (rows df2))"
    unfolding r3
    by (rule map_filter_zip_update)
       (simp_all only: length_build_transaction_date length_map amt_td A_td p3)
  also have "\<dots> = map (\<lambda>r. p (A (M r))) (filter (\<lambda>r. R (M r) \<and> amt (M r) \<noteq> None) (rows raw))"
    by (simp only: r2 r1 filter_filter filter_map map_map o_def)
  also have "\<dots> = map (\<lambda>r. p (r(''refund_amount'' := num_cell (amt r))))
      (filter (\<lambda>r. R r \<and> amt r \<noteq> None) (rows raw))"
    by (simp only: A_M R_M amt_M)
  also have "\<dots> = map (\<lambda>r. p (r(''refund_amount'' :=
                 num_cell (amount_spec L (max_refund_amount ?config) (r ''ROOM'')))))
       (filter (kept_row L ?config raw) (rows raw))"
    by (rule map_filter_cong2) (auto simp: R_def amt_def kept_row_def)
  finally show ?thesis .
qed


lemma clean_single_file_length:
  assumes "parse_site_and_month_from_filename name = Inr sm"
  shows "length (result_rows (clean_single_file L raw name cfg)) =
     length (filter (kept_row L (config_or_default cfg) raw) (rows raw))"
proof -
  obtain s m where "sm = (s, m)" by (cases sm)
  with assms(1) have pm: "parse_site_and_month_from_filename name = Inr (s, m)" by simp
  have "map (\<lambda>r. ()) (result_rows (clean_single_file L raw name cfg)) =
     map (\<lambda>r. ()) (filter (kept_row L (config_or_default cfg) raw) (rows raw))"
    by (subst clean_single_file_projection [OF pm]) simp_all
  then have "length (map (\<lambda>r. ()) (result_rows (clean_single_file L raw name cfg))) =
     length (map (\<lambda>r. ()) (filter (kept_row L (config_or_default cfg) raw) (rows raw)))"
    by (rule arg_cong)
  then show ?thesis by (simp only: length_map)
qed

lemma parse_brighton_nov:
  "parse_site_and_month_from_filename ''Brighton_nov.csv'' = Inr (''Brighton'', ''Nov-2025'')"
  by code_simp

section \<open>Properties of normalization\<close>

text \<open>
  C1, as the code has it. For every row that normalization keeps and whose
  \<open>BUSINESS_FORMAT_DATE\<close> value contains \<open>accomm\<close> in any letter case, the category is
  \<open>Accommodation\<close> when the value contains none of \<open>f&b\<close>, \<open>food\<close> and \<open>bar\<close>, and \<open>F&B\<close>
  when it contains one of them: the two assignments run in order over the whole column
  and the second overwrites the first.
\<close>

theorem category_last_assignment_wins:
  assumes "r \<in> set (result_rows (clean_single_file L raw name cfg))"
    and "contains (lower (astype_str L (r ''BUSINESS_FORMAT_DATE''))) ''accomm''"
  shows "r ''refund_category'' =
           (if contains (lower (astype_str L (r ''BUSINESS_FORMAT_DATE''))) ''f&b'' \<or>
               contains (lower (astype_str L (r ''BUSINESS_FORMAT_DATE''))) ''food'' \<or>
               contains (lower (astype_str L (r ''BUSINESS_FORMAT_DATE''))) ''bar''
            then Str ''F&B'' else Str ''Accommodation'')"
proof -
  from clean_single_file_rows [OF assms(1)] obtain r0 where
    "r ''BUSINESS_FORMAT_DATE'' = r0 ''BUSINESS_FORMAT_DATE''"
    "r ''refund_category'' = Str (category_code (lower (astype_str L (r0 ''BUSINESS_FORMAT_DATE''))))"
    by blast
  with assms(2) show ?thesis by (simp add: category_code_def)
qed

theorem category_last_assignment_wins_witness:
  "result_rows (clean_single_file plain_pandas ex_categories ''Brighton_nov.csv'' None) ! 0
     \<in> set (result_rows (clean_single_file plain_pandas ex_categories ''Brighton_nov.csv'' None)) \<and>
   contains (lower (astype_str plain_pandas
     ((result_rows (clean_single_file plain_pandas ex_categories ''Brighton_nov.csv'' None) ! 0)
        ''BUSINESS_FORMAT_DATE''))) ''accomm'' \<and>
   (result_rows (clean_single_file plain_pandas ex_categories ''Brighton_nov.csv'' None) ! 0)
     ''refund_category'' = Str ''Accommodation''"
proof -
  let ?X = "clean_single_file plain_pandas ex_categories ''Brighton_nov.csv'' None"
  let ?v = "lower (astype_str plain_pandas (Str ''Refund Accommodation''))"
  have b: "result_column ''BUSINESS_FORMAT_DATE'' ?X =
      [Str ''Refund Accommodation'', Str ''Refund Accomm Bar'']"
    by code_simp
  from column_nth [OF b, of 0] have mem: "result_rows ?X ! 0 \<in> set (result_rows ?X)"
    and r: "(result_rows ?X ! 0) ''BUSINESS_FORMAT_DATE'' = Str ''Refund Accommodation''"
    by simp_all
  have a: "contains ?v ''accomm''" by code_simp
  have n: "\<not> (contains ?v ''f&b'' \<or> contains ?v ''food'' \<or> contains ?v ''bar'')" by code_simp
  from category_last_assignment_wins [OF mem] a n r
  have "(result_rows ?X ! 0) ''refund_category'' = Str ''Accommodation''" by simp
  with mem a r show ?thesis by simp
qed

text \<open>
  C1 as stated fails: a kept row whose value is \<open>Refund Accomm Bar\<close> contains \<open>accomm\<close> and
  is classified \<open>F&B\<close>.
\<close>

theorem category_first_match_counterexample:
  "result_rows (clean_single_file plain_pandas ex_overlap ''Brighton_nov.csv'' None) ! 0
     \<in> set (result_rows (clean_single_file plain_pandas ex_overlap ''Brighton_nov.csv'' None)) \<and>
   contains (lower (astype_str plain_pandas
     ((result_rows (clean_single_file plain_pandas ex_overlap ''Brighton_nov.csv'' None) ! 0)
        ''BUSINESS_FORMAT_DATE''))) ''accomm'' \<and>
   (result_rows (clean_single_file plain_pandas ex_overlap ''Brighton_nov.csv'' None) ! 0)
     ''refund_category'' = Str ''F&B'' \<and>
   (result_rows (clean_single_file plain_pandas ex_overlap ''Brighton_nov.csv'' None) ! 0)
     ''refund_category'' \<noteq> Str ''Accommodation''"
proof -
  let ?X = "clean_single_file plain_pandas ex_overlap ''Brighton_nov.csv'' None"
  have b: "result_column ''BUSINESS_FORMAT_DATE'' ?X = [Str ''Refund Accomm Bar'']"
    by code_simp
  have c: "result_column ''refund_category'' ?X = [Str ''F&B'']"
    by code_simp
  have a: "contains (lower (astype_str plain_pandas (Str ''Refund Accomm Bar''))) ''accomm''"
    by code_simp
  from column_nth [OF b, of 0] column_nth [OF c, of 0] a show ?thesis by simp
qed

text \<open>
  C3. Every row of the table that \<open>clean_single_file\<close> returns, and every row of the
  consolidated table that \<open>clean_all_files\<close> returns, has a \<open>refund_amount\<close> that is a
  number, and not negative: rows without an amount are not carried forward. The table of
  one file has as many rows as the raw table has refund rows whose amount resolves.
\<close>

theorem refund_amount_never_null:
  "(\<forall>r \<in> set (result_rows (clean_single_file L raw name cfg)).
      \<exists>a. r ''refund_amount'' = Num a \<and> 0 \<le> a) \<and>
   (\<forall>r \<in> set (result_rows (clean_all_files L files cfg)).
      \<exists>a. r ''refund_amount'' = Num a \<and> 0 \<le> a) \<and>
   (parse_site_and_month_from_filename name = Inr sm \<longrightarrow>
      length (result_rows (clean_single_file L raw name cfg)) =
        length (filter (kept_row L (config_or_default cfg) raw) (rows raw)))"
  using clean_single_file_amount clean_all_files_amount clean_single_file_length by blast

theorem refund_amount_never_null_witness:
  "result_rows (clean_single_file plain_pandas ex_amounts ''Brighton_nov.csv'' None) ! 0
     \<in> set (result_rows (clean_single_file plain_pandas ex_amounts ''Brighton_nov.csv'' None)) \<and>
   (result_rows (clean_single_file plain_pandas ex_amounts ''Brighton_nov.csv'' None) ! 0)
     ''refund_amount'' = Num 1000 \<and>
   result_rows (clean_all_files plain_pandas
       [(''Brighton_nov.csv'', ex_amounts), (''Newhaven_jan.csv'', ex_categories)] None) ! 3
     \<in> set (result_rows (clean_all_files plain_pandas
       [(''Brighton_nov.csv'', ex_amounts), (''Newhaven_jan.csv'', ex_categories)] None)) \<and>
   (result_rows (clean_all_files plain_pandas
       [(''Brighton_nov.csv'', ex_amounts), (''Newhaven_jan.csv'', ex_categories)] None) ! 3)
     ''refund_amount'' = Num 30 \<and>
   parse_site_and_month_from_filename ''Brighton_nov.csv'' = Inr (''Brighton'', ''Nov-2025'') \<and>
   length (rows ex_amounts) = 4 \<and>
   length (filter (kept_row plain_pandas default_config ex_amounts) (rows ex_amounts)) = 2"
proof -
  let ?X = "clean_single_file plain_pandas ex_amounts ''Brighton_nov.csv'' None"
  let ?Y = "clean_all_files plain_pandas
       [(''Brighton_nov.csv'', ex_amounts), (''Newhaven_jan.csv'', ex_categories)] None"
  note inst = refund_amount_never_null [of plain_pandas ex_amounts "''Brighton_nov.csv''" None
      "[(''Brighton_nov.csv'', ex_amounts), (''Newhaven_jan.csv'', ex_categories)]"
      "(''Brighton'', ''Nov-2025'')"]
  have x: "result_column ''refund_amount'' ?X = [Num 1000, Num 1000]"
    by code_simp
  have y: "result_column ''refund_amount'' ?Y = [Num 1000, Num 1000, Num 20, Num 30]"
    by code_simp
  from x have "length (result_rows ?X) = 2"
    by (auto simp: result_column_def)
  with inst parse_brighton_nov
  have k: "length (filter (kept_row plain_pandas default_config ex_amounts) (rows ex_amounts)) = 2"
    by (simp add: config_or_default_def)
  have l: "length (rows ex_amounts) = 4"
    by (simp add: ex_amounts_def mk_frame_def)
  from column_nth [OF x, of 0] column_nth [OF y, of 3] inst parse_brighton_nov k l
  show ?thesis by simp
qed



section \<open>Properties of kpis\<close>

text \<open>
  C6. \<open>kpis\<close> on an empty consolidated table returns the count 0, the sum 0.0 and the
  mean 0.0: a value, not an error, and none of the three is missing.
\<close>

theorem kpis_empty:
  "df_empty df \<Longrightarrow>
     kpis L df = Inr \<lparr>refund_count = 0, total_refund_value = 0, avg_refund_value = 0\<rparr>"
  by (simp add: kpis_def)

theorem kpis_empty_witness:
  "df_empty (mk_frame [''site'', ''refund_amount''] []) \<and>
   kpis plain_pandas (mk_frame [''site'', ''refund_amount''] []) =
     Inr \<lparr>refund_count = 0, total_refund_value = 0, avg_refund_value = 0\<rparr>"
proof -
  have e: "df_empty (mk_frame [''site'', ''refund_amount''] [])"
    by (simp add: df_empty_def mk_frame_def)
  from e kpis_empty [OF e, of plain_pandas] show ?thesis by simp
qed

section \<open>Properties of the file name resolver\<close>

lemma startswith_append: "startswith s p \<longleftrightarrow> (\<exists>t. s = p @ t)"
  by (induction s p rule: startswith.induct) auto

lemma startswith_csv_junction:
  assumes "startswith (a @ ''.csv'' @ b) ''.csv''" and "a \<noteq> []"
  shows "startswith a ''.csv''"
proof -
  from assms(2) obtain c1 a1 where a: "a = c1 # a1" by (cases a) auto
  show ?thesis
  proof (cases a1)
    case Nil
    with assms(1) a show ?thesis by simp
  next
    case (Cons c2 a2)
    note a1 = this
    show ?thesis
    proof (cases a2)
      case Nil
      with assms(1) a a1 show ?thesis by simp
    next
      case (Cons c3 a3)
      note a2 = this
      show ?thesis
      proof (cases a3)
        case Nil
        with assms(1) a a1 a2 show ?thesis by simp
      next
        case (Cons c4 a4)
        with assms(1) a a1 a2 show ?thesis by simp
      qed
    qed
  qed
qed

lemma py_replace_match:
  "old \<noteq> [] \<Longrightarrow> startswith (c # cs) old \<Longrightarrow>
     py_replace old new (c # cs) = new @ py_replace old new (drop (length old) (c # cs))"
  by simp

lemma py_replace_skip:
  "old \<noteq> [] \<Longrightarrow> \<not> startswith (c # cs) old \<Longrightarrow>
     py_replace old new (c # cs) = c # py_replace old new cs"
  by simp

lemma py_replace_csv_append:
  "py_replace ''.csv'' [] (a @ ''.csv'' @ b) = py_replace ''.csv'' [] a @ py_replace ''.csv'' [] b"
proof (induction a rule: length_induct)
  case (1 a)
  show ?case
  proof (cases a)
    case Nil
    then show ?thesis by simp
  next
    case (Cons c cs)
    show ?thesis
    proof (cases "startswith a ''.csv''")
      case True
      then obtain t where t: "a = ''.csv'' @ t" by (auto simp: startswith_append)
      have "length t < length a" by (simp add: t)
      with 1 have "py_replace ''.csv'' [] (t @ ''.csv'' @ b) =
          py_replace ''.csv'' [] t @ py_replace ''.csv'' [] b" by blast
      then show ?thesis by (simp add: t)
    next
      case False
      have "\<not> startswith (a @ ''.csv'' @ b) ''.csv''"
        using startswith_csv_junction [of a b] False Cons by blast
      then have n: "\<not> startswith (c # (cs @ ''.csv'' @ b)) ''.csv''"
        by (simp only: Cons append_Cons not_False_eq_True)
      from False have f: "\<not> startswith (c # cs) ''.csv''"
        by (simp only: Cons not_False_eq_True)
      have ne: "''.csv'' \<noteq> ([] :: string)" by simp
      have "length cs < length a" by (simp add: Cons)
      with 1 have ih: "py_replace ''.csv'' [] (cs @ ''.csv'' @ b) =
          py_replace ''.csv'' [] cs @ py_replace ''.csv'' [] b" by blast
      have "py_replace ''.csv'' [] (a @ ''.csv'' @ b) =
          py_replace ''.csv'' [] (c # (cs @ ''.csv'' @ b))"
        by (simp only: Cons append_Cons)
      also have "\<dots> = c # py_replace ''.csv'' [] (cs @ ''.csv'' @ b)"
        by (rule py_replace_skip [OF ne n])
      also have "\<dots> = c # (py_replace ''.csv'' [] cs @ py_replace ''.csv'' [] b)"
        by (simp only: ih)
      also have "\<dots> = (c # py_replace ''.csv'' [] cs) @ py_replace ''.csv'' [] b"
        by (simp only: append_Cons)
      also have "c # py_replace ''.csv'' [] cs = py_replace ''.csv'' [] (c # cs)"
        by (rule py_replace_skip [OF ne f, symmetric])
      finally show ?thesis by (simp only: Cons)
    qed
  qed
qed

lemma py_replace_absent:
  "old \<noteq> [] \<Longrightarrow> \<not> contains s old \<Longrightarrow> py_replace old [] s = s"
  by (induction s) auto

text \<open>
  C2, as the code has it. The resolver removes every occurrence of the literal \<open>.csv\<close>
  that one scan from the left finds in the base name, wherever it stands, before the
  split on \<open>_\<close>: the segments of a name \<open>a.csvb\<close> are those of what the scan leaves of
  \<open>a\<close> followed by what it leaves of \<open>b\<close>. The match is case-sensitive: a name without
  the literal \<open>.csv\<close> is split as it is.
\<close>

theorem filename_parts_drop_every_csv:
  "(path_name filename = a @ ''.csv'' @ b \<longrightarrow>
      filename_parts filename =
        split_on CHR ''_'' (py_replace ''.csv'' [] a @ py_replace ''.csv'' [] b)) \<and>
   (\<not> contains (path_name filename) ''.csv'' \<longrightarrow>
      filename_parts filename = split_on CHR ''_'' (path_name filename))"
proof (intro conjI impI)
  assume "path_name filename = a @ ''.csv'' @ b"
  then show "filename_parts filename =
      split_on CHR ''_'' (py_replace ''.csv'' [] a @ py_replace ''.csv'' [] b)"
    by (simp only: filename_parts_def py_replace_csv_append)
next
  assume "\<not> contains (path_name filename) ''.csv''"
  then show "filename_parts filename = split_on CHR ''_'' (path_name filename)"
    by (simp add: filename_parts_def py_replace_absent)
qed

theorem filename_parts_drop_every_csv_witness:
  "path_name ''raw/Brighton_nov.csv_x.csv'' = ''Brighton_nov'' @ ''.csv'' @ ''_x.csv'' \<and>
   filename_parts ''raw/Brighton_nov.csv_x.csv'' = [''Brighton'', ''nov'', ''x''] \<and>
   \<not> contains (path_name ''Brighton_nov.CSV'') ''.csv'' \<and>
   filename_parts ''Brighton_nov.CSV'' = [''Brighton'', ''nov.CSV'']"
proof -
  have p: "path_name ''raw/Brighton_nov.csv_x.csv'' = ''Brighton_nov'' @ ''.csv'' @ ''_x.csv''"
    by code_simp
  have q: "\<not> contains (path_name ''Brighton_nov.CSV'') ''.csv''"
    by code_simp
  have s1: "split_on CHR ''_'' (py_replace ''.csv'' [] ''Brighton_nov'' @ py_replace ''.csv'' [] ''_x.csv'')
      = [''Brighton'', ''nov'', ''x'']"
    by code_simp
  have s2: "split_on CHR ''_'' (path_name ''Brighton_nov.CSV'') = [''Brighton'', ''nov.CSV'']"
    by code_simp
  from filename_parts_drop_every_csv [of "''raw/Brighton_nov.csv_x.csv''" "''Brighton_nov''" "''_x.csv''"]
    filename_parts_drop_every_csv [of "''Brighton_nov.CSV''"] p q s1 s2
  show ?thesis by simp
qed

text \<open>
  C2 as stated fails: in \<open>Brighton_nov.csv_x.csv\<close> the inner \<open>.csv\<close> is removed as well, so
  the month segment is \<open>nov\<close> and the name resolves, where removing the trailing
  suffix only would leave the segment \<open>nov.csv\<close>.
\<close>

theorem trailing_csv_only_counterexample:
  "filename_parts ''Brighton_nov.csv_x.csv'' = [''Brighton'', ''nov'', ''x''] \<and>
   spec_filename_parts ''Brighton_nov.csv_x.csv'' = [''Brighton'', ''nov.csv'', ''x''] \<and>
   parse_site_and_month_from_filename ''Brighton_nov.csv_x.csv'' = Inr (''Brighton'', ''Nov-2025'')"
  by code_simp

section \<open>Properties of sqri and of the group-by views\<close>

lemma collect_Inr: "collect xs = Inr vs \<Longrightarrow> xs = map Inr vs"
  by (induction xs arbitrary: vs) (auto split: sum.splits)

lemma collect_Inl: "collect xs = Inl e \<Longrightarrow> Inl e \<in> set xs"
  by (induction xs) (auto split: sum.splits)

lemma set_sort_descending: "set (sort_descending f xs) = set xs"
  by (simp add: sort_descending_def)

lemma sqri_site_Inr:
  "\<exists>row. sqri_site L w threshold d s = Inr row \<and> site row = s \<and>
     (total_value row = 0 \<longrightarrow> accommodation_share_value row = 0) \<and>
     (total_value row \<noteq> 0 \<longrightarrow>
        accommodation_share_value row = accommodation_value row / total_value row) \<and>
     sqri_score row =
       accommodation_share_value row * accommodation_share_weight w
       + accommodation_avg row / 100 * accommodation_avg_weight w
       + high_value_share row * high_value_share_weight w"
  by (simp add: sqri_site_def py_div_def Let_def)

lemma in_map_filter:
  "y \<in> set (List.map_filter f xs) \<longleftrightarrow> (\<exists>x \<in> set xs. f x = Some y)"
  by (induction xs) (auto split: option.splits)

lemma sqri_rows_site: "(s, x, c) \<in> set (sqri_rows L df) \<Longrightarrow> s \<noteq> Null"
  by (auto simp: sqri_rows_def in_map_filter split: option.splits if_splits)

lemma set_unique: "set (unique xs) = set xs"
  by (simp add: unique_def)

lemma sqri_out:
  assumes "sqri L df weights_opt threshold = Inr out" and "r \<in> set out"
  shows "\<exists>s \<in> fst ` set (sqri_rows L df).
           sqri_site L (weights_or_default weights_opt) threshold (sqri_rows L df) s = Inr r"
proof -
  let ?d = "sqri_rows L df"
  let ?xs = "map (sqri_site L (weights_or_default weights_opt) threshold ?d) (unique (map fst ?d))"
  from assms have d: "?d \<noteq> []" and ne: "\<not> df_empty df"
    by (auto simp: sqri_def Let_def split: if_splits)
  with assms(1) obtain vs where vs: "collect ?xs = Inr vs" and out: "out = sort_descending sqri_score vs"
    by (auto simp: sqri_def Let_def split: if_splits sum.splits)
  from assms(2) out have "r \<in> set vs" by (simp add: set_sort_descending)
  then have "Inr r \<in> set ?xs" using collect_Inr [OF vs] by simp
  then obtain s where "s \<in> set (unique (map fst ?d))"
    and "sqri_site L (weights_or_default weights_opt) threshold ?d s = Inr r"
    by auto
  then show ?thesis by (simp add: set_unique) blast
qed

text \<open>
  C7. \<open>sqri\<close> never ends in a division by zero, and in every row of its result the
  share is 0 when \<open>total_value\<close> is 0 and \<open>accommodation_value / total_value\<close> otherwise,
  with the score computed from it: the division is evaluated only for a total that is
  not 0. Division is modelled as \<open>py_div\<close>, which faults on a zero divisor.
\<close>

theorem sqri_division_guard:
  "sqri L df weights_opt threshold \<noteq> Inl ZeroDivisionError \<and>
   (sqri L df weights_opt threshold = Inr out \<longrightarrow>
      (\<forall>r \<in> set out.
         (total_value r = 0 \<longrightarrow> accommodation_share_value r = 0) \<and>
         (total_value r \<noteq> 0 \<longrightarrow>
            accommodation_share_value r = accommodation_value r / total_value r) \<and>
         sqri_score r =
           accommodation_share_value r * accommodation_share_weight (weights_or_default weights_opt)
           + accommodation_avg r / 100 * accommodation_avg_weight (weights_or_default weights_opt)
           + high_value_share r * high_value_share_weight (weights_or_default weights_opt)))"
proof (intro conjI impI ballI)
  show "sqri L df weights_opt threshold \<noteq> Inl ZeroDivisionError"
  proof
    assume z: "sqri L df weights_opt threshold = Inl ZeroDivisionError"
    let ?d = "sqri_rows L df"
    let ?xs = "map (sqri_site L (weights_or_default weights_opt) threshold ?d) (unique (map fst ?d))"
    from z have "collect ?xs = Inl ZeroDivisionError"
      by (auto simp: sqri_def Let_def split: if_splits sum.splits)
    then have "Inl ZeroDivisionError \<in> set ?xs" by (rule collect_Inl)
    then obtain s where "sqri_site L (weights_or_default weights_opt) threshold ?d s = Inl ZeroDivisionError"
      by auto
    with sqri_site_Inr [of L "weights_or_default weights_opt" threshold ?d s] show False by auto
  qed
next
  fix r assume "sqri L df weights_opt threshold = Inr out" "r \<in> set out"
  from sqri_out [OF this] obtain s where
    s: "sqri_site L (weights_or_default weights_opt) threshold (sqri_rows L df) s = Inr r" by blast
  from sqri_site_Inr [of L "weights_or_default weights_opt" threshold "sqri_rows L df" s] s
  have p: "(total_value r = 0 \<longrightarrow> accommodation_share_value r = 0) \<and>
     (total_value r \<noteq> 0 \<longrightarrow>
        accommodation_share_value r = accommodation_value r / total_value r) \<and>
     sqri_score r =
       accommodation_share_value r * accommodation_share_weight (weights_or_default weights_opt)
       + accommodation_avg r / 100 * accommodation_avg_weight (weights_or_default weights_opt)
       + high_value_share r * high_value_share_weight (weights_or_default weights_opt)"
    by auto
  from p show "total_value r = 0 \<Longrightarrow> accommodation_share_value r = 0" by blast
  from p show "total_value r \<noteq> 0 \<Longrightarrow>
      accommodation_share_value r = accommodation_value r / total_value r" by blast
  from p show "sqri_score r =
       accommodation_share_value r * accommodation_share_weight (weights_or_default weights_opt)
       + accommodation_avg r / 100 * accommodation_avg_weight (weights_or_default weights_opt)
       + high_value_share r * high_value_share_weight (weights_or_default weights_opt)" by blast
qed

lemma sqri_ex_sites: "sqri plain_pandas ex_sites None 100 = Inr ex_sqri_out"
  by code_simp

theorem sqri_division_guard_witness:
  "sqri plain_pandas ex_sites None 100 = Inr ex_sqri_out \<and>
   ex_sqri_out ! 1 \<in> set ex_sqri_out \<and>
   total_value (ex_sqri_out ! 1) = 0 \<and>
   accommodation_value (ex_sqri_out ! 1) = 5 \<and>
   accommodation_share_value (ex_sqri_out ! 1) = 0"
proof -
  have m: "ex_sqri_out ! 1 \<in> set ex_sqri_out" and t: "total_value (ex_sqri_out ! 1) = 0"
    and a: "accommodation_value (ex_sqri_out ! 1) = 5"
    by (simp_all add: ex_sqri_out_def)
  from sqri_division_guard [of plain_pandas ex_sites None 100 ex_sqri_out] sqri_ex_sites m t
  have "accommodation_share_value (ex_sqri_out ! 1) = 0" by blast
  with sqri_ex_sites m t a show ?thesis by simp
qed

lemma map_filter_filter:
  "(\<And>x. \<not> P x \<Longrightarrow> f x = None) \<Longrightarrow> List.map_filter f (filter P xs) = List.map_filter f xs"
  by (induction xs) (auto split: option.splits)

lemma sqri_rows_non_null: "sqri_rows L (non_null_sites df) = sqri_rows L df"
  unfolding sqri_rows_def non_null_sites_def
  by (simp add: map_filter_filter split: option.splits)

lemma sqri_non_null_sites:
  assumes "rows (non_null_sites df) \<noteq> []"
  shows "sqri L (non_null_sites df) weights_opt threshold = sqri L df weights_opt threshold"
proof -
  from assms have "rows df \<noteq> []" by (auto simp: non_null_sites_def)
  with assms have "df_empty (non_null_sites df) = df_empty df"
    by (simp add: df_empty_def non_null_sites_def)
  moreover have "columns (non_null_sites df) = columns df"
    by (simp add: non_null_sites_def)
  ultimately show ?thesis
    by (simp add: sqri_def sqri_rows_non_null)
qed

lemma sqri_site_not_null:
  assumes "sqri L df weights_opt threshold = Inr out" and "r \<in> set out"
  shows "site r \<noteq> Null"
proof -
  from sqri_out [OF assms] obtain k where k: "k \<in> set (sqri_rows L df)"
    and r: "sqri_site L (weights_or_default weights_opt) threshold (sqri_rows L df) (fst k) = Inr r"
    by blast
  obtain s x c where "k = (s, x, c)" by (cases k)
  with k have "fst k \<noteq> Null" by (auto dest: sqri_rows_site)
  moreover from sqri_site_Inr [of L "weights_or_default weights_opt" threshold "sqri_rows L df" "fst k"] r
  have "site r = fst k" by auto
  ultimately show ?thesis by simp
qed

lemma groupby_keep_na_key:
  assumes "groupby_keep_na c1 c2 df = Inr gs" and "r \<in> set (rows df)"
  shows "\<exists>g \<in> set gs. key1 g = r c1 \<and> key2 g = r c2"
proof -
  let ?keys = "map (\<lambda>r. (r c1, r c2)) (rows df)"
  from assms(1) obtain amounts where
    gs: "gs = map (\<lambda>k. aggregate k (zip ?keys amounts)) (unique ?keys)"
    by (auto simp: groupby_keep_na_def Let_def split: if_splits sum.splits)
  from assms(2) have "(r c1, r c2) \<in> set (unique ?keys)"
    by (auto simp: set_unique)
  then have "aggregate (r c1, r c2) (zip ?keys amounts) \<in> set gs"
    unfolding gs set_map by (rule imageI)
  moreover have "key1 (aggregate (r c1, r c2) (zip ?keys amounts)) = r c1"
    "key2 (aggregate (r c1, r c2) (zip ?keys amounts)) = r c2"
    by (simp_all add: aggregate_def Let_def)
  ultimately show ?thesis by blast
qed

text \<open>
  C10. No row of the result of \<open>sqri\<close> has a missing site, and the rows of the table
  whose site is missing do not contribute: as long as a row with a site remains,
  removing them leaves the result unchanged. \<open>by_site_month\<close> and \<open>category_split\<close>, in
  contrast, have a group for the key of every row of the table, a missing site
  included.
\<close>

theorem sqri_excludes_null_site:
  "(sqri L df weights_opt threshold = Inr out \<longrightarrow> (\<forall>r \<in> set out. site r \<noteq> Null)) \<and>
   (rows (non_null_sites df) \<noteq> [] \<longrightarrow>
      sqri L (non_null_sites df) weights_opt threshold = sqri L df weights_opt threshold) \<and>
   (by_site_month df = Inr gs \<longrightarrow>
      (\<forall>r \<in> set (rows df). \<exists>g \<in> set gs. key1 g = r ''site'' \<and> key2 g = r ''file_month'')) \<and>
   (category_split df = Inr cs \<longrightarrow>
      (\<forall>r \<in> set (rows df). \<exists>g \<in> set cs. key1 g = r ''site'' \<and> key2 g = r ''refund_category''))"
  using sqri_site_not_null sqri_non_null_sites
    groupby_keep_na_key [of "''site''" "''file_month''" df gs]
    groupby_keep_na_key [of "''site''" "''refund_category''" df cs]
  by (simp add: by_site_month_def category_split_def)

theorem sqri_excludes_null_site_witness:
  "sqri plain_pandas ex_sites None 100 = Inr ex_sqri_out \<and>
   site (ex_sqri_out ! 0) \<noteq> Null \<and> site (ex_sqri_out ! 1) \<noteq> Null \<and>
   rows (non_null_sites ex_sites) \<noteq> [] \<and>
   sqri plain_pandas (non_null_sites ex_sites) None 100 = Inr ex_sqri_out \<and>
   rows ex_sites ! 2 \<in> set (rows ex_sites) \<and> (rows ex_sites ! 2) ''site'' = Null \<and>
   by_site_month ex_sites = Inr ex_by_site_month \<and> key1 (ex_by_site_month ! 2) = Null \<and>
   category_split ex_sites = Inr ex_category_split \<and> key1 (ex_category_split ! 2) = Null"
proof -
  note inst = sqri_excludes_null_site [of plain_pandas ex_sites None 100 ex_sqri_out
      ex_by_site_month ex_category_split]
  have s: "sqri plain_pandas ex_sites None 100 = Inr ex_sqri_out"
    by (rule sqri_ex_sites)
  have m: "ex_sqri_out ! 0 \<in> set ex_sqri_out" "ex_sqri_out ! 1 \<in> set ex_sqri_out"
    by (simp_all add: ex_sqri_out_def)
  from inst s m have n: "site (ex_sqri_out ! 0) \<noteq> Null" "site (ex_sqri_out ! 1) \<noteq> Null"
    by blast+
  have r: "rows (non_null_sites ex_sites) \<noteq> []"
    by (simp add: non_null_sites_def ex_sites_def mk_frame_def mk_row_def)
  from inst r s have e: "sqri plain_pandas (non_null_sites ex_sites) None 100 = Inr ex_sqri_out"
    by simp
  have x: "rows ex_sites ! 2 \<in> set (rows ex_sites)" "(rows ex_sites ! 2) ''site'' = Null"
    by (simp_all add: ex_sites_def mk_frame_def mk_row_def)
  have b: "by_site_month ex_sites = Inr ex_by_site_month"
    by code_simp
  have c: "category_split ex_sites = Inr ex_category_split"
    by code_simp
  have k: "key1 (ex_by_site_month ! 2) = Null" "key1 (ex_category_split ! 2) = Null"
    by (simp_all add: ex_by_site_month_def ex_category_split_def)
  from s n r e x b c k show ?thesis by simp
qed

section \<open>Properties of the duplicate check\<close>

lemma duplicated_nth:
  assumes "i < length ks"
  shows "duplicated ks ! i \<longleftrightarrow> 2 \<le> count_list ks (ks ! i)"
proof -
  have d: "duplicated ks ! i \<longleftrightarrow> ks ! i \<in> set (take i ks) \<or> ks ! i \<in> set (drop (Suc i) ks)"
    using assms by (simp add: duplicated_def nth_enumerate_eq)
  have "ks = take i ks @ ks ! i # drop (Suc i) ks"
    using assms by (rule id_take_nth_drop)
  then have "count_list ks (ks ! i) =
      count_list (take i ks) (ks ! i) + 1 + count_list (drop (Suc i) ks) (ks ! i)"
    by (metis count_list_append count_list.simps(2) add.assoc add.commute)
  moreover have "count_list (take i ks) (ks ! i) = 0 \<longleftrightarrow> ks ! i \<notin> set (take i ks)"
    by (rule count_list_0_iff)
  moreover have "count_list (drop (Suc i) ks) (ks ! i) = 0 \<longleftrightarrow> ks ! i \<notin> set (drop (Suc i) ks)"
    by (rule count_list_0_iff)
  ultimately show ?thesis using d by arith
qed

lemma duplicated_count: "duplicated ks = map (\<lambda>k. 2 \<le> count_list ks k) ks"
proof (rule nth_equalityI)
  show "length (duplicated ks) = length (map (\<lambda>k. 2 \<le> count_list ks k) ks)"
    by (simp add: duplicated_def)
next
  fix i assume "i < length (duplicated ks)"
  then have "i < length ks" by (simp add: duplicated_def)
  then show "duplicated ks ! i = map (\<lambda>k. 2 \<le> count_list ks k) ks ! i"
    by (simp add: duplicated_nth)
qed

lemma filter_zip_map: "map fst (filter snd (zip xs (map P xs))) = filter P xs"
  by (induction xs) auto

lemma length_filter_id_map: "length (filter (\<lambda>b. b) (map P xs)) = length (filter P xs)"
  by (induction xs) auto

lemma length_unique: "length (unique xs) = card (set xs)"
  by (simp add: unique_def length_remdups_card_conv)

lemma duplicate_rows_count:
  "length (filter (\<lambda>b. b) (duplicated ks)) = length (filter (\<lambda>k. 2 \<le> count_list ks k) ks)"
  by (simp only: duplicated_count length_filter_id_map)

lemma distinct_duplicate_keys_count:
  "(if length (filter (\<lambda>k. 2 \<le> count_list ks k) ks) \<noteq> 0
    then length (unique (map fst (filter snd (zip ks (duplicated ks)))))
    else 0) = card {k \<in> set ks. 2 \<le> count_list ks k}"
proof (cases "filter (\<lambda>k. 2 \<le> count_list ks k) ks = []")
  case True
  then have "{k \<in> set ks. 2 \<le> count_list ks k} = {}"
    by (auto simp: filter_empty_conv)
  with True show ?thesis by simp
next
  case False
  have "length (unique (map fst (filter snd (zip ks (duplicated ks))))) =
      card (set (filter (\<lambda>k. 2 \<le> count_list ks k) ks))"
    by (simp only: duplicated_count filter_zip_map length_unique)
  with False show ?thesis by simp
qed

text \<open>
  C8. When every key column is a column of the table, \<open>duplicate_rows\<close> is the
  number of rows whose key tuple occurs at least twice, so every member of a group of
  two or more counts, and \<open>distinct_duplicate_keys\<close> is the number of distinct key tuples
  that occur at least twice. When a key column is absent, the check returns
  \<open>duplicate_rows\<close> 0 and the number of absent key columns, and does not fail.
\<close>

theorem duplicate_check_counts:
  "(set key_cols \<subseteq> set (columns df) \<longrightarrow>
      duplicate_check df key_cols =
        [(''duplicate_rows'',
            length (filter (\<lambda>k. 2 \<le> count_list (key_tuples df key_cols) k)
                      (key_tuples df key_cols))),
         (''distinct_duplicate_keys'',
            card {k \<in> set (key_tuples df key_cols).
                    2 \<le> count_list (key_tuples df key_cols) k})]) \<and>
   (\<not> set key_cols \<subseteq> set (columns df) \<longrightarrow>
      duplicate_check df key_cols =
        [(''duplicate_rows'', 0),
         (''note_missing_key_cols'', length (filter (\<lambda>c. c \<notin> set (columns df)) key_cols))])"
proof (intro conjI impI)
  assume sub: "set key_cols \<subseteq> set (columns df)"
  then have m: "filter (\<lambda>c. c \<notin> set (columns df)) key_cols = []"
    by (auto simp: filter_empty_conv)
  show "duplicate_check df key_cols =
        [(''duplicate_rows'',
            length (filter (\<lambda>k. 2 \<le> count_list (key_tuples df key_cols) k)
                      (key_tuples df key_cols))),
         (''distinct_duplicate_keys'',
            card {k \<in> set (key_tuples df key_cols).
                    2 \<le> count_list (key_tuples df key_cols) k})]"
    unfolding duplicate_check_def Let_def m key_tuples_def
    by (simp only: duplicate_rows_count distinct_duplicate_keys_count simp_thms if_False)
next
  assume "\<not> set key_cols \<subseteq> set (columns df)"
  then have "filter (\<lambda>c. c \<notin> set (columns df)) key_cols \<noteq> []"
    by (auto simp: filter_empty_conv)
  then show "duplicate_check df key_cols =
        [(''duplicate_rows'', 0),
         (''note_missing_key_cols'', length (filter (\<lambda>c. c \<notin> set (columns df)) key_cols))]"
    by (simp add: duplicate_check_def Let_def)
qed

lemma duplicate_check_ex_dups:
  "duplicate_check ex_dups key_cols_default =
     [(''duplicate_rows'', 2), (''distinct_duplicate_keys'', 1)]"
  by code_simp

theorem duplicate_check_counts_witness:
  "set key_cols_default \<subseteq> set (columns ex_dups) \<and>
   duplicate_check ex_dups key_cols_default =
     [(''duplicate_rows'', 2), (''distinct_duplicate_keys'', 1)] \<and>
   card {k \<in> set (key_tuples ex_dups key_cols_default).
           2 \<le> count_list (key_tuples ex_dups key_cols_default) k} = 1 \<and>
   \<not> set key_cols_default \<subseteq> set (columns ex_missing_keys) \<and>
   duplicate_check ex_missing_keys key_cols_default =
     [(''duplicate_rows'', 0), (''note_missing_key_cols'', 2)]"
proof -
  have a: "set key_cols_default \<subseteq> set (columns ex_dups)"
    by (simp add: key_cols_default_def ex_dups_def mk_frame_def)
  have b: "\<not> set key_cols_default \<subseteq> set (columns ex_missing_keys)"
    by (simp add: key_cols_default_def ex_missing_keys_def mk_frame_def)
  from duplicate_check_counts [of key_cols_default ex_dups] a duplicate_check_ex_dups
  have c: "card {k \<in> set (key_tuples ex_dups key_cols_default).
           2 \<le> count_list (key_tuples ex_dups key_cols_default) k} = 1"
    by simp
  from duplicate_check_counts [of key_cols_default ex_missing_keys] b
  have "duplicate_check ex_missing_keys key_cols_default =
      [(''duplicate_rows'', 0),
       (''note_missing_key_cols'',
          length (filter (\<lambda>c. c \<notin> set (columns ex_missing_keys)) key_cols_default))]"
    by blast
  then have d: "duplicate_check ex_missing_keys key_cols_default =
      [(''duplicate_rows'', 0), (''note_missing_key_cols'', 2)]"
    by (simp add: key_cols_default_def ex_missing_keys_def mk_frame_def)
  from a b c d duplicate_check_ex_dups show ?thesis by simp
qed

section \<open>Properties of peak_days\<close>



















end
